theory Spec2Isabelle
  imports Complex_Main
begin

section \<open>JavaScript strings\<close>

text \<open>
  A JavaScript string is a sequence of UTF-16 code units, here natural numbers.
  \<open>js\<close> writes a literal of the source as its code units. The string methods the
  converter calls (\<^verbatim>\<open>split\<close>, \<^verbatim>\<open>join\<close>, \<^verbatim>\<open>trim\<close>, \<^verbatim>\<open>includes\<close>, \<^verbatim>\<open>startsWith\<close>,
  \<^verbatim>\<open>indexOf\<close> with \<^verbatim>\<open>substring\<close>) are written out as list functions.
\<close>

type_synonym codeunit = nat

type_synonym jsstring = "codeunit list"

abbreviation cu :: "char \<Rightarrow> codeunit" where
  "cu c \<equiv> of_char c"

abbreviation js :: "string \<Rightarrow> jsstring" where
  "js s \<equiv> map cu s"

text \<open>
  White space as \<^verbatim>\<open>\s\<close>, \<^verbatim>\<open>trim\<close> and \<^verbatim>\<open>parseFloat\<close> see it, the white space and
  line terminators of ECMAScript: tab, line feed, vertical tab, form feed,
  carriage return, space, U+00A0, U+1680, U+2000 to U+200A, U+2028, U+2029,
  U+202F, U+205F, U+3000 and U+FEFF.
\<close>

definition isSpace :: "codeunit \<Rightarrow> bool" where
  "isSpace c = (c = 0x09 \<or> c = 0x0A \<or> c = 0x0B \<or> c = 0x0C \<or> c = 0x0D \<or> c = 0x20
                \<or> c = 0xA0 \<or> c = 0x1680 \<or> (0x2000 \<le> c \<and> c \<le> 0x200A)
                \<or> c = 0x2028 \<or> c = 0x2029 \<or> c = 0x202F \<or> c = 0x205F
                \<or> c = 0x3000 \<or> c = 0xFEFF)"

text \<open>The digits \<^verbatim>\<open>0\<close> to \<^verbatim>\<open>9\<close>, and \<^verbatim>\<open>\w\<close>, which is \<^verbatim>\<open>[A-Za-z0-9_]\<close>.\<close>

definition isDigit :: "codeunit \<Rightarrow> bool" where
  "isDigit c = (48 \<le> c \<and> c \<le> 57)"

definition isWord :: "codeunit \<Rightarrow> bool" where
  "isWord c = ((48 \<le> c \<and> c \<le> 57) \<or> (65 \<le> c \<and> c \<le> 90) \<or> (97 \<le> c \<and> c \<le> 122) \<or> c = 95)"

definition trim :: "jsstring \<Rightarrow> jsstring" where
  "trim s = rev (dropWhile isSpace (rev (dropWhile isSpace s)))"

text \<open>\<^verbatim>\<open>s.split(c)\<close> for a one-character separator: never the empty list.\<close>

fun split :: "codeunit \<Rightarrow> jsstring \<Rightarrow> jsstring list" where
  "split c [] = [[]]"
| "split c (x # xs) =
     (if x = c then [] # split c xs
      else (case split c xs of [] \<Rightarrow> [[x]] | p # ps \<Rightarrow> (x # p) # ps))"

fun join :: "codeunit \<Rightarrow> jsstring list \<Rightarrow> jsstring" where
  "join c [] = []"
| "join c [p] = p"
| "join c (p # q # ps) = p @ c # join c (q # ps)"

fun startsWith :: "jsstring \<Rightarrow> jsstring \<Rightarrow> bool" where
  "startsWith s [] = True"
| "startsWith [] (p # ps) = False"
| "startsWith (x # xs) (p # ps) = (x = p \<and> startsWith xs ps)"

fun includesStr :: "jsstring \<Rightarrow> jsstring \<Rightarrow> bool" where
  "includesStr [] p = startsWith [] p"
| "includesStr (x # xs) p = (startsWith (x # xs) p \<or> includesStr xs p)"

text \<open>
  \<^verbatim>\<open>i = line.indexOf('//'); i !== -1 ? line.substring(0, i) : line\<close>:
  the line up to the first \<^verbatim>\<open>//\<close>.
\<close>

fun stripLineComment :: "jsstring \<Rightarrow> jsstring" where
  "stripLineComment [] = []"
| "stripLineComment (x # xs) =
     (if startsWith (x # xs) (js ''//'') then [] else x # stripLineComment xs)"

section \<open>Regular expressions\<close>

text \<open>
  The converter reads its input with regular expressions. They are kept as
  syntax trees and run by a backtracking matcher in continuation style, which is
  how ECMAScript defines matching: a greedy star tries one more iteration before
  the continuation, a lazy star the continuation first, an alternative its left
  branch first, and an iteration that consumes nothing is refused.
\<close>

datatype regex =
    Chr codeunit
  | Cls "codeunit \<Rightarrow> bool"
  | Eps
  | Cat regex regex
  | Alt regex regex
  | Star regex
  | Lazy regex
  | Grp nat regex

type_synonym captures = "(nat \<times> jsstring) list"

function matchk ::
  "regex \<Rightarrow> jsstring \<Rightarrow> captures \<Rightarrow> (jsstring \<Rightarrow> captures \<Rightarrow> 'a option) \<Rightarrow> 'a option" where
  "matchk (Chr c) s cs k = (case s of [] \<Rightarrow> None | x # s' \<Rightarrow> if x = c then k s' cs else None)"
| "matchk (Cls P) s cs k = (case s of [] \<Rightarrow> None | x # s' \<Rightarrow> if P x then k s' cs else None)"
| "matchk Eps s cs k = k s cs"
| "matchk (Cat a b) s cs k = matchk a s cs (\<lambda>s' cs'. matchk b s' cs' k)"
| "matchk (Alt a b) s cs k =
     (case matchk a s cs k of Some r \<Rightarrow> Some r | None \<Rightarrow> matchk b s cs k)"
| "matchk (Star r) s cs k =
     (case matchk r s cs
             (\<lambda>s' cs'. if length s' < length s then matchk (Star r) s' cs' k else None) of
        Some x \<Rightarrow> Some x
      | None \<Rightarrow> k s cs)"
| "matchk (Lazy r) s cs k =
     (case k s cs of
        Some x \<Rightarrow> Some x
      | None \<Rightarrow> matchk r s cs
             (\<lambda>s' cs'. if length s' < length s then matchk (Lazy r) s' cs' k else None))"
| "matchk (Grp n r) s cs k =
     matchk r s cs (\<lambda>s' cs'. k s' ((n, take (length s - length s') s) # cs'))"
  by pat_completeness auto
termination
  by (relation "inv_image (measure size <*lex*> measure length) (\<lambda>(r, s, cs, k). (r, s))") auto

text \<open>Literal text, one or more, zero or one.\<close>

fun Str :: "jsstring \<Rightarrow> regex" where
  "Str [] = Eps"
| "Str (c # cs) = Cat (Chr c) (Str cs)"

definition Plus :: "regex \<Rightarrow> regex" where
  "Plus r = Cat r (Star r)"

definition Opt :: "regex \<Rightarrow> regex" where
  "Opt r = Alt r Eps"

fun Cats :: "regex list \<Rightarrow> regex" where
  "Cats [] = Eps"
| "Cats [r] = r"
| "Cats (r # rs) = Cat r (Cats rs)"

text \<open>
  A match at the start of \<open>s\<close>: the text left after it and the captures.
  \<^verbatim>\<open>s.match(re)\<close> without the global flag is the leftmost match; its
  result carries the whole match (group 0 here) and the groups.
\<close>

definition matchAt :: "regex \<Rightarrow> jsstring \<Rightarrow> (jsstring \<times> captures) option" where
  "matchAt r s = matchk (Grp 0 r) s [] (\<lambda>s' cs'. Some (s', cs'))"

fun match :: "regex \<Rightarrow> jsstring \<Rightarrow> captures option" where
  "match r [] = map_option snd (matchAt r [])"
| "match r (x # xs) =
     (case matchAt r (x # xs) of Some (rest, cs) \<Rightarrow> Some cs | None \<Rightarrow> match r xs)"

text \<open>\<^verbatim>\<open>m[i]\<close> of a match result: the last text group \<open>i\<close> captured.\<close>

definition grp :: "captures \<Rightarrow> nat \<Rightarrow> jsstring" where
  "grp cs i = (case map_of cs i of Some t \<Rightarrow> t | None \<Rightarrow> [])"

text \<open>
  \<^verbatim>\<open>s.replace(re, '')\<close> with the global flag: every match is cut out, the
  search going on after it; after an empty match one character is copied.
\<close>

function removeMatches :: "regex \<Rightarrow> jsstring \<Rightarrow> jsstring" where
  "removeMatches r [] = []"
| "removeMatches r (x # xs) =
     (case matchAt r (x # xs) of
        Some (rest, cs) \<Rightarrow>
          if length rest < length (x # xs) then removeMatches r rest
          else x # removeMatches r xs
      | None \<Rightarrow> x # removeMatches r xs)"
  by pat_completeness auto
termination
  by (relation "measure (\<lambda>(r, s). length s)") auto

section \<open>JavaScript numbers\<close>

text \<open>
  A value of the converter is \<^verbatim>\<open>undefined\<close> (a missing list element), \<^verbatim>\<open>NaN\<close>,
  an infinity (\<open>Infinity True\<close> is the negative one) or a finite number. Finite
  numbers are real numbers within the range of binary64. The result of an
  operation is taken into that range by \<open>toNumber\<close>: a magnitude at or above
  \<open>(2 - 1 / 2 ^ 53) * 2 ^ 1023\<close>, half way from the largest binary64 number to
  \<open>2 ^ 1024\<close>, is an infinity, and one at or below \<open>1 / 2 ^ 1075\<close>, half the
  smallest positive binary64 number, is zero. Between these bounds a number
  stands for itself: the rounding to the nearest binary64 number is not part of
  the model.
\<close>

datatype jsnum = Undefined | NaN | Infinity bool | Num real

definition overflowBound :: real where
  "overflowBound = (2 - 1 / 2 ^ 53) * 2 ^ 1023"

definition underflowBound :: real where
  "underflowBound = 1 / 2 ^ 1075"

definition toNumber :: "real \<Rightarrow> jsnum" where
  "toNumber v =
     (if overflowBound \<le> \<bar>v\<bar> then Infinity (v < 0)
      else if \<bar>v\<bar> \<le> underflowBound then Num 0
      else Num v)"

definition digitsVal :: "jsstring \<Rightarrow> nat" where
  "digitsVal ds = foldl (\<lambda>n c. 10 * n + (c - 48)) 0 ds"

text \<open>
  \<^verbatim>\<open>parseFloat\<close>: leading white space is skipped, then the longest prefix that is
  a decimal literal is read: a sign, \<^verbatim>\<open>Infinity\<close> or digits with an optional
  fraction and exponent. Without a digit the result is \<^verbatim>\<open>NaN\<close>. A literal too
  large for binary64 reads as an infinity, one too small as zero.
\<close>

definition parseFloat :: "jsstring \<Rightarrow> jsnum" where
  "parseFloat s =
     (let s1 = dropWhile isSpace s;
          neg = startsWith s1 (js ''-'');
          s2 = (if startsWith s1 (js ''-'') \<or> startsWith s1 (js ''+'') then tl s1 else s1);
          ip = takeWhile isDigit s2;
          s3 = dropWhile isDigit s2;
          fp = (if startsWith s3 (js ''.'') then takeWhile isDigit (tl s3) else []);
          s4 = (if startsWith s3 (js ''.'') then dropWhile isDigit (tl s3) else s3);
          hasE = (startsWith s4 (js ''e'') \<or> startsWith s4 (js ''E''));
          s5 = (if hasE then tl s4 else []);
          eneg = startsWith s5 (js ''-'');
          s6 = (if startsWith s5 (js ''-'') \<or> startsWith s5 (js ''+'') then tl s5 else s5);
          ed = takeWhile isDigit s6;
          m = real (digitsVal (ip @ fp)) / 10 ^ length fp;
          v = (if eneg then m / 10 ^ digitsVal ed else m * 10 ^ digitsVal ed)
      in if startsWith s2 (js ''Infinity'') then Infinity neg
         else if ip = [] \<and> fp = [] then NaN
         else toNumber (if neg then - v else v))"

text \<open>\<^verbatim>\<open>xs[i]\<close> is \<^verbatim>\<open>undefined\<close> out of range.\<close>

definition idx :: "jsnum list \<Rightarrow> nat \<Rightarrow> jsnum" where
  "idx xs i = (if i < length xs then xs ! i else Undefined)"

text \<open>\<^verbatim>\<open>x || 1\<close>: \<^verbatim>\<open>undefined\<close>, \<^verbatim>\<open>NaN\<close> and zero are falsy.\<close>

fun orOne :: "jsnum \<Rightarrow> jsnum" where
  "orOne Undefined = Num 1"
| "orOne NaN = Num 1"
| "orOne (Infinity b) = Infinity b"
| "orOne (Num r) = (if r = 0 then Num 1 else Num r)"

text \<open>
  \<^verbatim>\<open>Math.PI\<close> is the binary64 number next to \<open>\<pi>\<close>, a fraction with
  denominator \<open>2 ^ 48\<close>.
\<close>

definition MathPI :: real where
  "MathPI = 884279719003555 / 281474976710656"

text \<open>
  \<^verbatim>\<open>x / 2\<close> and \<^verbatim>\<open>x * Math.PI / 180\<close>, the latter a product and then a
  quotient, each taken into the range of binary64.
\<close>

fun half :: "jsnum \<Rightarrow> jsnum" where
  "half (Num r) = toNumber (r / 2)"
| "half (Infinity b) = Infinity b"
| "half NaN = NaN"
| "half Undefined = NaN"

fun over180 :: "jsnum \<Rightarrow> jsnum" where
  "over180 (Num r) = toNumber (r / 180)"
| "over180 (Infinity b) = Infinity b"
| "over180 NaN = NaN"
| "over180 Undefined = NaN"

fun toRadians :: "jsnum \<Rightarrow> jsnum" where
  "toRadians (Num r) = over180 (toNumber (r * MathPI))"
| "toRadians (Infinity b) = Infinity b"
| "toRadians NaN = NaN"
| "toRadians Undefined = NaN"

section \<open>The scene the converter builds\<close>

text \<open>
  The converter calls three.js constructors and sets positions and rotations;
  the scene is kept as the tree of those calls. A geometry is the constructor
  call with its arguments, a material the \<^verbatim>\<open>MeshPhongMaterial\<close> options, and an
  object is a \<^verbatim>\<open>THREE.Mesh\<close> or a \<^verbatim>\<open>THREE.Group\<close> with its position, its Euler
  rotation and, for a group, its children in the order of \<^verbatim>\<open>add\<close>.
\<close>

type_synonym vec3 = "jsnum \<times> jsnum \<times> jsnum"

datatype geometry =
    BoxGeometry jsnum jsnum jsnum
  | SphereGeometry jsnum nat nat
  | CylinderGeometry jsnum jsnum jsnum nat

datatype material = MeshPhongMaterial (color: int) (transparent: bool) (opacity: real)

datatype object3d =
    Mesh (geometry: geometry) (material: material) (position: vec3) (rotation: vec3)
  | Group (position: vec3) (rotation: vec3) (children: "object3d list")

definition origin :: vec3 where
  "origin = (Num 0, Num 0, Num 0)"

text \<open>
  \<^verbatim>\<open>Vector3.set(x, y, z)\<close> of three.js keeps the old \<open>z\<close>, here the initial 0,
  when \<open>z\<close> is \<^verbatim>\<open>undefined\<close>.
\<close>

definition vectorSet :: "jsnum \<Rightarrow> jsnum \<Rightarrow> jsnum \<Rightarrow> vec3" where
  "vectorSet x y z = (x, y, if z = Undefined then Num 0 else z)"

text \<open>\<^verbatim>\<open>cube.material = m\<close>; only meshes are assigned to.\<close>

fun setMaterial :: "material \<Rightarrow> object3d \<Rightarrow> object3d" where
  "setMaterial m (Mesh g m0 p r) = Mesh g m p r"
| "setMaterial m (Group p r cs) = Group p r cs"

section \<open>The converter of \<^verbatim>\<open>src/utils/openscadConverter.ts\<close>\<close>

subsection \<open>Primitives\<close>

text \<open>\<^verbatim>\<open>/cube\(\s*\[([^\]]+)\]\s*\)/\<close> and \<^verbatim>\<open>/cube\(\s*([^,\[\]]+)\s*\)/\<close>\<close>

definition cubeBracketRe :: regex where
  "cubeBracketRe = Cats [Str (js ''cube(''), Star (Cls isSpace), Chr (cu (CHR ''['')),
     Grp 1 (Plus (Cls (\<lambda>c. c \<noteq> cu (CHR '']'')))), Chr (cu (CHR '']'')),
     Star (Cls isSpace), Chr (cu (CHR '')''))]"

definition cubeSingleRe :: regex where
  "cubeSingleRe = Cats [Str (js ''cube(''), Star (Cls isSpace),
     Grp 1 (Plus (Cls (\<lambda>c. c \<noteq> cu (CHR '','') \<and> c \<noteq> cu (CHR ''['') \<and> c \<noteq> cu (CHR '']'')))),
     Star (Cls isSpace), Chr (cu (CHR '')''))]"

text \<open>
  \<^verbatim>\<open>parseCube\<close>, first half: the numbers read from the line, or nothing when
  neither expression matches (the function then warns and returns \<^verbatim>\<open>null\<close>).
\<close>

definition cubeParams :: "jsstring \<Rightarrow> jsnum list option" where
  "cubeParams line =
     (case match cubeBracketRe line of
        Some bracketMatch \<Rightarrow>
          Some (map (\<lambda>s. parseFloat (trim s)) (split (cu (CHR '','')) (grp bracketMatch 1)))
      | None \<Rightarrow>
          (case match cubeSingleRe line of
             Some singleMatch \<Rightarrow> Some [parseFloat (trim (grp singleMatch 1))]
           | None \<Rightarrow> None))"

text \<open>Second half: one number is the edge of a cube, otherwise \<^verbatim>\<open>params[i] || 1\<close>.\<close>

definition cubeSize :: "jsnum list \<Rightarrow> vec3" where
  "cubeSize params =
     (if length params = 1 then (idx params 0, idx params 0, idx params 0)
      else (orOne (idx params 0), orOne (idx params 1), orOne (idx params 2)))"

definition cubeMesh :: "vec3 \<Rightarrow> object3d" where
  "cubeMesh dims =
     (case dims of (sx, sy, sz) \<Rightarrow>
        Mesh (BoxGeometry sx sy sz) (MeshPhongMaterial 0x667eea True 0.9)
             (half sx, half sy, half sz) origin)"

definition parseCube :: "jsstring \<Rightarrow> object3d option" where
  "parseCube line =
     (case cubeParams line of
        None \<Rightarrow> None
      | Some params \<Rightarrow> Some (cubeMesh (cubeSize params)))"

text \<open>\<^verbatim>\<open>/sphere\((?:r\s*=\s*)?([^,)]+)/\<close>\<close>

definition notCommaParen :: "codeunit \<Rightarrow> bool" where
  "notCommaParen c = (c \<noteq> cu (CHR '','') \<and> c \<noteq> cu (CHR '')''))"

definition sphereRe :: regex where
  "sphereRe = Cats [Str (js ''sphere(''),
     Opt (Cats [Chr (cu (CHR ''r'')), Star (Cls isSpace), Chr (cu (CHR ''='')), Star (Cls isSpace)]),
     Grp 1 (Plus (Cls notCommaParen))]"

definition parseSphere :: "jsstring \<Rightarrow> object3d option" where
  "parseSphere line =
     (case match sphereRe line of
        None \<Rightarrow> None
      | Some m \<Rightarrow>
          Some (Mesh (SphereGeometry (parseFloat (trim (grp m 1))) 32 32)
                     (MeshPhongMaterial 0x764ba2 True 0.9) origin origin))"

text \<open>
  \<^verbatim>\<open>/h\s*=\s*([^,)]+)/\<close>, and the same with \<^verbatim>\<open>r\<close>, \<^verbatim>\<open>r1\<close> and \<^verbatim>\<open>r2\<close> for \<^verbatim>\<open>h\<close>.
\<close>

definition namedRe :: "jsstring \<Rightarrow> regex" where
  "namedRe name = Cats [Str name, Star (Cls isSpace), Chr (cu (CHR ''='')), Star (Cls isSpace),
     Grp 1 (Plus (Cls notCommaParen))]"

definition named :: "jsstring \<Rightarrow> jsstring \<Rightarrow> jsnum \<Rightarrow> jsnum" where
  "named name line dflt =
     (case match (namedRe name) line of
        Some m \<Rightarrow> parseFloat (grp m 1)
      | None \<Rightarrow> dflt)"

definition parseCylinder :: "jsstring \<Rightarrow> object3d option" where
  "parseCylinder line =
     (let height = named (js ''h'') line (Num 1);
          radius = named (js ''r'') line (Num 1);
          r1 = named (js ''r1'') line radius;
          r2 = named (js ''r2'') line radius
      in Some (Mesh (CylinderGeometry r2 r1 height 32)
                    (MeshPhongMaterial 0x48bb78 True 0.9) origin (Num (MathPI / 2), Num 0, Num 0)))"

subsection \<open>Transforms and difference\<close>

text \<open>
  \<^verbatim>\<open>/translate\(\[([^\]]+)\]\)/\<close> on the line, and
  \<^verbatim>\<open>/translate\([^)]+\)\s*(\w+\([^)]+\))/\<close> on the whole cleaned code for the
  child; the same with \<^verbatim>\<open>rotate\<close>.
\<close>

definition transformRe :: "jsstring \<Rightarrow> regex" where
  "transformRe name = Cats [Str name, Str (js ''([''),
     Grp 1 (Plus (Cls (\<lambda>c. c \<noteq> cu (CHR '']'')))), Str (js ''])'')]"

definition childRe :: "jsstring \<Rightarrow> regex" where
  "childRe name = Cats [Str name, Chr (cu (CHR ''('')), Plus (Cls (\<lambda>c. c \<noteq> cu (CHR '')''))),
     Chr (cu (CHR '')'')), Star (Cls isSpace),
     Grp 1 (Cats [Plus (Cls isWord), Chr (cu (CHR ''('')), Plus (Cls (\<lambda>c. c \<noteq> cu (CHR '')''))),
                  Chr (cu (CHR '')''))])]"

text \<open>The \<^verbatim>\<open>startsWith\<close> chain that parses the child of a transform.\<close>

definition parseChild :: "jsstring \<Rightarrow> object3d option" where
  "parseChild childLine =
     (if startsWith childLine (js ''cube'') then parseCube childLine
      else if startsWith childLine (js ''sphere'') then parseSphere childLine
      else if startsWith childLine (js ''cylinder'') then parseCylinder childLine
      else None)"

definition parseTranslate :: "jsstring \<Rightarrow> jsstring \<Rightarrow> object3d option" where
  "parseTranslate line fullCode =
     (case match (transformRe (js ''translate'')) line of
        None \<Rightarrow> None
      | Some m \<Rightarrow>
          (let coords = map (\<lambda>s. parseFloat (trim s)) (split (cu (CHR '','')) (grp m 1)) in
           case match (childRe (js ''translate'')) fullCode of
             None \<Rightarrow> None
           | Some childMatch \<Rightarrow>
               Some (Group (vectorSet (idx coords 0) (idx coords 1) (idx coords 2)) origin
                       (case parseChild (grp childMatch 1) of
                          Some child \<Rightarrow> [child]
                        | None \<Rightarrow> []))))"

definition parseRotate :: "jsstring \<Rightarrow> jsstring \<Rightarrow> object3d option" where
  "parseRotate line fullCode =
     (case match (transformRe (js ''rotate'')) line of
        None \<Rightarrow> None
      | Some m \<Rightarrow>
          (let angles = map (\<lambda>s. toRadians (parseFloat (trim s)))
                            (split (cu (CHR '','')) (grp m 1)) in
           Some (Group origin (idx angles 0, idx angles 1, idx angles 2)
                   (case match (childRe (js ''rotate'')) fullCode of
                      None \<Rightarrow> []
                    | Some childMatch \<Rightarrow>
                        (case parseChild (grp childMatch 1) of
                           Some child \<Rightarrow> [child]
                         | None \<Rightarrow> [])))))"

text \<open>\<^verbatim>\<open>/difference\(\)\s*\{([^}]+)\}/\<close>\<close>

definition differenceRe :: regex where
  "differenceRe = Cats [Str (js ''difference()''), Star (Cls isSpace), Chr (cu (CHR ''{'')),
     Grp 1 (Plus (Cls (\<lambda>c. c \<noteq> cu (CHR ''}'')))), Chr (cu (CHR ''}''))]"

text \<open>
  The loop of \<^verbatim>\<open>parseDifference\<close> over the lines of the block: the first line
  that starts with \<^verbatim>\<open>cube\<close> and parses is recoloured and added, and the loop
  breaks.
\<close>

fun differenceLines :: "jsstring list \<Rightarrow> object3d list" where
  "differenceLines [] = []"
| "differenceLines (line # rest) =
     (let trimmed = trim line in
      if startsWith trimmed (js ''cube'') then
        (case parseCube trimmed of
           Some cube \<Rightarrow> [setMaterial (MeshPhongMaterial 0xed8936 True 0.9) cube]
         | None \<Rightarrow> differenceLines rest)
      else differenceLines rest)"

definition parseDifference :: "jsstring \<Rightarrow> object3d option" where
  "parseDifference code =
     (case match differenceRe code of
        None \<Rightarrow> None
      | Some m \<Rightarrow>
          Some (Group origin origin (differenceLines (split (cu (CHR 0x0A)) (grp m 1)))))"

subsection \<open>The entry point\<close>

text \<open>\<^verbatim>\<open>/\/\*[\s\S]*?\*\//g\<close>\<close>

definition blockCommentRe :: regex where
  "blockCommentRe = Cats [Str (js ''/*''), Lazy (Cls (\<lambda>c. True)), Str (js ''*/'')]"

definition cleanCode :: "jsstring \<Rightarrow> jsstring" where
  "cleanCode code =
     removeMatches blockCommentRe
       (join (cu (CHR 0x0A)) (map stripLineComment (split (cu (CHR 0x0A)) code)))"

text \<open>
  The \<^verbatim>\<open>if\<close>/\<^verbatim>\<open>else if\<close> chain of the line loop: the object a trimmed line adds
  to the group, if any. The first keyword found in the line decides.
\<close>

definition parseStatement :: "jsstring \<Rightarrow> jsstring \<Rightarrow> object3d option" where
  "parseStatement trimmed clean =
     (if includesStr trimmed (js ''cube('') then parseCube trimmed
      else if includesStr trimmed (js ''sphere('') then parseSphere trimmed
      else if includesStr trimmed (js ''cylinder('') then parseCylinder trimmed
      else if includesStr trimmed (js ''translate('') then parseTranslate trimmed clean
      else if includesStr trimmed (js ''rotate('') then parseRotate trimmed clean
      else if includesStr trimmed (js ''difference()'') then parseDifference clean
      else None)"

text \<open>The line loop, with the children of the group so far.\<close>

fun parseLines :: "jsstring \<Rightarrow> jsstring list \<Rightarrow> object3d list \<Rightarrow> object3d list" where
  "parseLines clean [] added = added"
| "parseLines clean (line # rest) added =
     (let trimmed = trim line in
      if trimmed = [] then parseLines clean rest added
      else (case parseStatement trimmed clean of
              Some obj \<Rightarrow> parseLines clean rest (added @ [obj])
            | None \<Rightarrow> parseLines clean rest added))"

datatype error = Error string | TypeError

definition noPrimitives :: string where
  "noPrimitives =
     ''No valid OpenSCAD primitives found. Supported: cube, sphere, cylinder, translate, rotate''"

text \<open>
  \<^verbatim>\<open>parseOpenSCADToThreeJS\<close>: the group, or the error thrown when the group has
  no child. The \<^verbatim>\<open>catch\<close> logs and throws the error again.
\<close>

definition parseOpenSCADToThreeJS :: "jsstring \<Rightarrow> error + object3d" where
  "parseOpenSCADToThreeJS code =
     (let clean = cleanCode code;
          added = parseLines clean (split (cu (CHR 0x0A)) clean) []
      in if length added = 0 then Inl (Error noPrimitives)
         else Inr (Group origin origin added))"

section \<open>Bounding boxes\<close>

text \<open>
  \<^verbatim>\<open>BoxGeometry(w, h, d)\<close> of three.js is centred on its local origin: its
  corners are at \<open>(\<plusminus>w/2, \<plusminus>h/2, \<plusminus>d/2)\<close>, kept in a buffer of binary32
  numbers. A half extent at or above \<open>(2 - 1 / 2 ^ 24) * 2 ^ 127\<close> is kept as an
  infinity and one at or below \<open>1 / 2 ^ 150\<close> as zero; a box with such a half
  extent has no corners here. The rounding to binary32 is not part of the
  model. A mesh that is not rotated has, in the frame of its parent, the box of
  its geometry moved by its position.
\<close>

type_synonym point = "real \<times> real \<times> real"

definition inFloat32 :: "real \<Rightarrow> bool" where
  "inFloat32 r = (1 / 2 ^ 150 < \<bar>r\<bar> \<and> \<bar>r\<bar> < (2 - 1 / 2 ^ 24) * 2 ^ 127)"

fun boxCorners :: "geometry \<Rightarrow> (point \<times> point) option" where
  "boxCorners (BoxGeometry (Num w) (Num h) (Num d)) =
     (if (w = 0 \<or> inFloat32 (w / 2)) \<and> (h = 0 \<or> inFloat32 (h / 2))
         \<and> (d = 0 \<or> inFloat32 (d / 2))
      then Some ((- \<bar>w\<bar> / 2, - \<bar>h\<bar> / 2, - \<bar>d\<bar> / 2), (\<bar>w\<bar> / 2, \<bar>h\<bar> / 2, \<bar>d\<bar> / 2))
      else None)"
| "boxCorners g = None"

fun meshBounds :: "object3d \<Rightarrow> (point \<times> point) option" where
  "meshBounds (Mesh g m (Num px, Num py, Num pz) rot) =
     (if rot = origin then
        (case boxCorners g of
           Some ((x0, y0, z0), (x1, y1, z1)) \<Rightarrow>
             Some ((px + x0, py + y0, pz + z0), (px + x1, py + y1, pz + z1))
         | None \<Rightarrow> None)
      else None)"
| "meshBounds obj = None"

section \<open>The converter variant with variables and blocks\<close>

text \<open>
  \<^verbatim>\<open>src/unnamed/part_000\<close> holds a second \<^verbatim>\<open>openscadConverter\<close>. It collects
  numeric variables, tries the whole code as a \<^verbatim>\<open>difference\<close>, \<^verbatim>\<open>union\<close> or
  \<^verbatim>\<open>linear_extrude\<close> structure, falls back to the line loop over the three
  primitives, and puts a placeholder box into a group that is still empty. Its
  functions carry the suffix \<open>_p000\<close> here; \<^verbatim>\<open>parseSphere\<close> and \<^verbatim>\<open>parseCylinder\<close>
  ignore the variables and are the functions above.
\<close>

text \<open>
  \<^verbatim>\<open>s.matchAll(re)\<close>: the matches from left to right, each search starting where
  the match before ended (one character further after an empty match).
\<close>

function matchAll :: "regex \<Rightarrow> jsstring \<Rightarrow> captures list" where
  "matchAll r [] = (case matchAt r [] of Some (rest, cs) \<Rightarrow> [cs] | None \<Rightarrow> [])"
| "matchAll r (x # xs) =
     (case matchAt r (x # xs) of
        Some (rest, cs) \<Rightarrow>
          if length rest < length (x # xs) then cs # matchAll r rest
          else cs # matchAll r xs
      | None \<Rightarrow> matchAll r xs)"
  by pat_completeness auto
termination
  by (relation "measure (\<lambda>(r, s). length s)") auto

type_synonym variables = "(jsstring \<times> jsnum) list"

text \<open>\<^verbatim>\<open>/(\w+)\s*=\s*([0-9.]+)\s*;/g\<close>; a later assignment overwrites an earlier one.\<close>

definition assignmentRe :: regex where
  "assignmentRe = Cats [Grp 1 (Plus (Cls isWord)), Star (Cls isSpace), Chr (cu (CHR ''='')),
     Star (Cls isSpace), Grp 2 (Plus (Cls (\<lambda>c. isDigit c \<or> c = cu (CHR ''.'')))),
     Star (Cls isSpace), Chr (cu (CHR '';''))]"

definition extractVariables :: "jsstring \<Rightarrow> variables" where
  "extractVariables clean =
     foldl (\<lambda>vars m. (grp m 1, parseFloat (grp m 2)) # vars) [] (matchAll assignmentRe clean)"

text \<open>\<^verbatim>\<open>variables.has(t) ? variables.get(t)! : parseFloat(t)\<close>\<close>

definition valueOf :: "variables \<Rightarrow> jsstring \<Rightarrow> jsnum" where
  "valueOf vars t = (case map_of vars t of Some v \<Rightarrow> v | None \<Rightarrow> parseFloat t)"

text \<open>\<^verbatim>\<open>/cube\(\s*\[([^\]]+)\]/\<close> and \<^verbatim>\<open>/cube\(\s*([^,\[\)]+)/\<close>\<close>

definition cubeBracketRe_p000 :: regex where
  "cubeBracketRe_p000 = Cats [Str (js ''cube(''), Star (Cls isSpace), Chr (cu (CHR ''['')),
     Grp 1 (Plus (Cls (\<lambda>c. c \<noteq> cu (CHR '']'')))), Chr (cu (CHR '']''))]"

definition cubeSingleRe_p000 :: regex where
  "cubeSingleRe_p000 = Cats [Str (js ''cube(''), Star (Cls isSpace),
     Grp 1 (Plus (Cls (\<lambda>c. c \<noteq> cu (CHR '','') \<and> c \<noteq> cu (CHR ''['') \<and> c \<noteq> cu (CHR '')''))))]"

definition parseCube_p000 :: "jsstring \<Rightarrow> variables \<Rightarrow> object3d option" where
  "parseCube_p000 line vars =
     (case match cubeBracketRe_p000 line of
        Some bracketMatch \<Rightarrow>
          Some (cubeMesh (cubeSize
            (map (\<lambda>s. valueOf vars (trim s)) (split (cu (CHR '','')) (grp bracketMatch 1)))))
      | None \<Rightarrow>
          (case match cubeSingleRe_p000 line of
             Some singleMatch \<Rightarrow>
               Some (cubeMesh (cubeSize [valueOf vars (trim (grp singleMatch 1))]))
           | None \<Rightarrow> None))"

text \<open>\<^verbatim>\<open>/height\s*=\s*([^,\)]+)/\<close>\<close>

definition parseLinearExtrude :: "jsstring \<Rightarrow> variables \<Rightarrow> object3d option" where
  "parseLinearExtrude code vars =
     (let height = (case match (namedRe (js ''height'')) code of
                      Some heightMatch \<Rightarrow> valueOf vars (trim (grp heightMatch 1))
                    | None \<Rightarrow> Num 10)
      in Some (Mesh (BoxGeometry (Num 20) (Num 20) height)
                    (MeshPhongMaterial 0x10b981 True 0.85) origin origin))"

definition parseShape :: "jsstring \<Rightarrow> variables \<Rightarrow> object3d option" where
  "parseShape code vars =
     (if includesStr code (js ''cube('') then parseCube_p000 code vars
      else if includesStr code (js ''sphere('') then parseSphere code
      else if includesStr code (js ''cylinder('') then parseCylinder code
      else if includesStr code (js ''linear_extrude'') then parseLinearExtrude code vars
      else None)"

text \<open>
  \<^verbatim>\<open>/translate\(\[([^\]]+)\]\)\s*(\w+\([^}]+\}|\w+\([^)]+\))/g\<close> and
  \<^verbatim>\<open>/cube\(\s*\[([^\]]+)\][^;]*\)/g\<close>
\<close>

definition translateShapeRe :: regex where
  "translateShapeRe = Cats [Str (js ''translate([''), Grp 1 (Plus (Cls (\<lambda>c. c \<noteq> cu (CHR '']'')))),
     Str (js ''])''), Star (Cls isSpace),
     Grp 2 (Alt (Cats [Plus (Cls isWord), Chr (cu (CHR ''('')), Plus (Cls (\<lambda>c. c \<noteq> cu (CHR ''}''))),
                       Chr (cu (CHR ''}''))])
                (Cats [Plus (Cls isWord), Chr (cu (CHR ''('')), Plus (Cls (\<lambda>c. c \<noteq> cu (CHR '')''))),
                       Chr (cu (CHR '')''))]))]"

definition cubeShapeRe :: regex where
  "cubeShapeRe = Cats [Str (js ''cube(''), Star (Cls isSpace), Chr (cu (CHR ''['')),
     Grp 1 (Plus (Cls (\<lambda>c. c \<noteq> cu (CHR '']'')))), Chr (cu (CHR '']'')),
     Star (Cls (\<lambda>c. c \<noteq> cu (CHR '';''))), Chr (cu (CHR '')''))]"

text \<open>\<^verbatim>\<open>x || 0\<close>\<close>

fun orZero :: "jsnum \<Rightarrow> jsnum" where
  "orZero Undefined = Num 0"
| "orZero NaN = Num 0"
| "orZero (Infinity b) = Infinity b"
| "orZero (Num r) = Num r"

fun setPosition :: "vec3 \<Rightarrow> object3d \<Rightarrow> object3d" where
  "setPosition p (Mesh g m p0 r) = Mesh g m p r"
| "setPosition p (Group p0 r cs) = Group p r cs"

definition extractShapes :: "jsstring \<Rightarrow> variables \<Rightarrow> object3d list" where
  "extractShapes code vars =
     List.map_filter
       (\<lambda>m. let coords = map (\<lambda>s. valueOf vars (trim s)) (split (cu (CHR '','')) (grp m 1)) in
            map_option
              (setPosition (vectorSet (orZero (idx coords 0)) (orZero (idx coords 1))
                                      (orZero (idx coords 2))))
              (parseShape (grp m 2) vars))
       (matchAll translateShapeRe code)
     @ List.map_filter (\<lambda>m. parseCube_p000 (grp m 0) vars) (matchAll cubeShapeRe code)"

text \<open>\<^verbatim>\<open>/difference\(\)\s*\{([\s\S]*)\}/\<close> and \<^verbatim>\<open>/union\(\)\s*\{([\s\S]*)\}/\<close>\<close>

definition blockRe :: "jsstring \<Rightarrow> regex" where
  "blockRe name = Cats [Str name, Str (js ''()''), Star (Cls isSpace), Chr (cu (CHR ''{'')),
     Grp 1 (Star (Cls (\<lambda>c. True))), Chr (cu (CHR ''}''))]"

definition parseDifferenceBlock :: "jsstring \<Rightarrow> variables \<Rightarrow> object3d option" where
  "parseDifferenceBlock code vars =
     (case match (blockRe (js ''difference'')) code of
        None \<Rightarrow> None
      | Some m \<Rightarrow>
          (case extractShapes (grp m 1) vars of
             [] \<Rightarrow> None
           | base # others \<Rightarrow> Some (setMaterial (MeshPhongMaterial 0x8b5cf6 True 0.85) base)))"

definition parseUnionBlock :: "jsstring \<Rightarrow> variables \<Rightarrow> object3d option" where
  "parseUnionBlock code vars =
     (case match (blockRe (js ''union'')) code of
        None \<Rightarrow> None
      | Some m \<Rightarrow> Some (Group origin origin (extractShapes (grp m 1) vars)))"

definition parseComplexStructure :: "jsstring \<Rightarrow> variables \<Rightarrow> object3d option" where
  "parseComplexStructure code vars =
     (if includesStr code (js ''difference()'') then parseDifferenceBlock code vars
      else if includesStr code (js ''union()'') then parseUnionBlock code vars
      else if includesStr code (js ''linear_extrude'') then parseLinearExtrude code vars
      else None)"

definition parseStatement_p000 :: "jsstring \<Rightarrow> variables \<Rightarrow> object3d option" where
  "parseStatement_p000 trimmed vars =
     (if includesStr trimmed (js ''cube('') then parseCube_p000 trimmed vars
      else if includesStr trimmed (js ''sphere('') then parseSphere trimmed
      else if includesStr trimmed (js ''cylinder('') then parseCylinder trimmed
      else None)"

fun parseLines_p000 :: "variables \<Rightarrow> jsstring list \<Rightarrow> object3d list \<Rightarrow> object3d list" where
  "parseLines_p000 vars [] added = added"
| "parseLines_p000 vars (line # rest) added =
     (let trimmed = trim line in
      if trimmed = [] then parseLines_p000 vars rest added
      else (case parseStatement_p000 trimmed vars of
              Some obj \<Rightarrow> parseLines_p000 vars rest (added @ [obj])
            | None \<Rightarrow> parseLines_p000 vars rest added))"

definition placeholder :: object3d where
  "placeholder =
     Mesh (BoxGeometry (Num 10) (Num 10) (Num 10)) (MeshPhongMaterial 0x667eea True 0.7)
          origin origin"

text \<open>
  \<^verbatim>\<open>parseOpenSCADToThreeJS\<close> of this variant. Nothing in its \<^verbatim>\<open>try\<close> block throws,
  so the \<^verbatim>\<open>catch\<close> with the red placeholder has no branch here; the function
  always returns a group.
\<close>

definition parseOpenSCADToThreeJS_p000 :: "jsstring \<Rightarrow> object3d" where
  "parseOpenSCADToThreeJS_p000 code =
     (let clean = cleanCode code;
          vars = extractVariables clean
      in case parseComplexStructure clean vars of
           Some parsed \<Rightarrow> Group origin origin [parsed]
         | None \<Rightarrow>
             (let added = parseLines_p000 vars (split (cu (CHR 0x0A)) clean) []
              in if length added = 0 then Group origin origin [placeholder]
                 else Group origin origin added))"

section \<open>Statements the grammar does not match\<close>

text \<open>
  The definitions of this section are not taken from the converters. They say
  which lines hold no recognised statement: a line names a statement when it
  holds one of the keywords the line loop looks for, and it is unmatched when it
  names none, or when it is a cube call that is never closed, like the
  \<^verbatim>\<open>cube(bad syntax\<close> of the specification. For the variant of
  \<^verbatim>\<open>src/unnamed/part_000\<close> the keywords are those of its line loop and of its
  block structures.
\<close>

definition hasKeyword :: "jsstring \<Rightarrow> bool" where
  "hasKeyword l =
     (includesStr l (js ''cube('') \<or> includesStr l (js ''sphere('')
      \<or> includesStr l (js ''cylinder('') \<or> includesStr l (js ''translate('')
      \<or> includesStr l (js ''rotate('') \<or> includesStr l (js ''difference()''))"

definition unmatched :: "jsstring \<Rightarrow> bool" where
  "unmatched l =
     (\<not> hasKeyword l \<or> (includesStr l (js ''cube('') \<and> cu (CHR '')'') \<notin> set l))"

definition hasKeyword_p000 :: "jsstring \<Rightarrow> bool" where
  "hasKeyword_p000 l =
     (includesStr l (js ''cube('') \<or> includesStr l (js ''sphere('')
      \<or> includesStr l (js ''cylinder(''))"

definition hasBlock_p000 :: "jsstring \<Rightarrow> bool" where
  "hasBlock_p000 code =
     (includesStr code (js ''difference()'') \<or> includesStr code (js ''union()'')
      \<or> includesStr code (js ''linear_extrude''))"

text \<open>
  A regular expression needs a code unit when every text it matches holds it;
  the test below is a sufficient one.
\<close>

fun needs :: "codeunit \<Rightarrow> regex \<Rightarrow> bool" where
  "needs c (Chr d) = (c = d)"
| "needs c (Cls P) = False"
| "needs c Eps = False"
| "needs c (Cat a b) = (needs c a \<or> needs c b)"
| "needs c (Alt a b) = (needs c a \<and> needs c b)"
| "needs c (Star r) = False"
| "needs c (Lazy r) = False"
| "needs c (Grp n r) = needs c r"

section \<open>The STL exporter of \<^verbatim>\<open>src/utils/stlExporter.ts\<close>\<close>

subsection \<open>Vectors and matrices of three.js\<close>

text \<open>
  The exporter reads buffers of numbers and combines them with \<^verbatim>\<open>Vector3\<close> and
  \<^verbatim>\<open>Matrix4\<close> methods of three.js. The methods are written out over the real
  numbers, a \<^verbatim>\<open>Matrix4\<close> with its sixteen \<^verbatim>\<open>elements\<close> in three.js's column-major
  order. Division is that of the reals: a matrix with a zero perspective divisor
  or a zero column, where JavaScript produces an infinity, is outside the model.
\<close>

datatype matrix4 =
  Matrix4 real real real real  real real real real  real real real real  real real real real

definition identity4 :: matrix4 where
  "identity4 = Matrix4 1 0 0 0  0 1 0 0  0 0 1 0  0 0 0 1"

fun applyMatrix4 :: "point \<Rightarrow> matrix4 \<Rightarrow> point" where
  "applyMatrix4 (x, y, z) (Matrix4 e0 e1 e2 e3 e4 e5 e6 e7 e8 e9 e10 e11 e12 e13 e14 e15) =
     (let w = 1 / (e3 * x + e7 * y + e11 * z + e15) in
      ((e0 * x + e4 * y + e8 * z + e12) * w,
       (e1 * x + e5 * y + e9 * z + e13) * w,
       (e2 * x + e6 * y + e10 * z + e14) * w))"

fun vlength :: "point \<Rightarrow> real" where
  "vlength (x, y, z) = sqrt (x * x + y * y + z * z)"

fun extractRotation :: "matrix4 \<Rightarrow> matrix4" where
  "extractRotation (Matrix4 e0 e1 e2 e3 e4 e5 e6 e7 e8 e9 e10 e11 e12 e13 e14 e15) =
     (let scaleX = 1 / vlength (e0, e1, e2);
          scaleY = 1 / vlength (e4, e5, e6);
          scaleZ = 1 / vlength (e8, e9, e10)
      in Matrix4 (e0 * scaleX) (e1 * scaleX) (e2 * scaleX) 0
                 (e4 * scaleY) (e5 * scaleY) (e6 * scaleY) 0
                 (e8 * scaleZ) (e9 * scaleZ) (e10 * scaleZ) 0
                 0 0 0 1)"

fun vadd :: "point \<Rightarrow> point \<Rightarrow> point" where
  "vadd (ax, ay, az) (bx, by, bz) = (ax + bx, ay + by, az + bz)"

fun subVectors :: "point \<Rightarrow> point \<Rightarrow> point" where
  "subVectors (ax, ay, az) (bx, by, bz) = (ax - bx, ay - by, az - bz)"

fun crossVectors :: "point \<Rightarrow> point \<Rightarrow> point" where
  "crossVectors (ax, ay, az) (bx, by, bz) =
     (ay * bz - az * by, az * bx - ax * bz, ax * by - ay * bx)"

text \<open>\<^verbatim>\<open>normalize()\<close> is \<^verbatim>\<open>divideScalar(length() || 1)\<close>.\<close>

fun vnormalize :: "point \<Rightarrow> point" where
  "vnormalize (x, y, z) =
     (let l = (if vlength (x, y, z) = 0 then 1 else vlength (x, y, z)) in
      (x * (1 / l), y * (1 / l), z * (1 / l)))"

subsection \<open>The scene the exporter reads\<close>

text \<open>
  A geometry has an optional \<^verbatim>\<open>position\<close> attribute, an optional \<^verbatim>\<open>normal\<close>
  attribute and an optional index. A mesh has its geometry and the world matrix
  three.js keeps in \<^verbatim>\<open>matrixWorld\<close>. An object is a mesh or not and has children;
  \<^verbatim>\<open>traverse\<close> visits an object before its children.
\<close>

record bufferGeometry =
  positionAttribute :: "point list option"
  normalAttribute :: "point list option"
  indexAttribute :: "nat list option"

record mesh =
  meshGeometry :: bufferGeometry
  matrixWorld :: matrix4

datatype scene = Object3D (asMesh: "mesh option") (childrenOf: "scene list")

fun collectMeshes :: "scene \<Rightarrow> mesh list" where
  "collectMeshes (Object3D m cs) =
     (case m of Some x \<Rightarrow> [x] | None \<Rightarrow> []) @ concat (map collectMeshes cs)"

subsection \<open>Writing the facets\<close>

text \<open>
  Numbers are written by JavaScript's conversion of a number to a string, the
  parameter \<open>fmt\<close>. \<open>xs[i]\<close> is \<^verbatim>\<open>undefined\<close> out of range and for an \<^verbatim>\<open>undefined\<close>
  index; reading a component of \<^verbatim>\<open>undefined\<close> throws a \<^verbatim>\<open>TypeError\<close>.
\<close>

definition elemAt :: "'a list \<Rightarrow> nat option \<Rightarrow> 'a option" where
  "elemAt xs i = (case i of None \<Rightarrow> None | Some n \<Rightarrow> if n < length xs then Some (xs ! n) else None)"

definition coords :: "(real \<Rightarrow> string) \<Rightarrow> point \<Rightarrow> string" where
  "coords fmt p = (case p of (x, y, z) \<Rightarrow> fmt x @ '' '' @ fmt y @ '' '' @ fmt z)"

definition facet :: "(real \<Rightarrow> string) \<Rightarrow> point \<Rightarrow> point \<Rightarrow> point \<Rightarrow> point \<Rightarrow> string" where
  "facet fmt normal v1 v2 v3 =
     ''  facet normal '' @ coords fmt normal @ ''\<newline>''
     @ ''    outer loop\<newline>''
     @ ''      vertex '' @ coords fmt v1 @ ''\<newline>''
     @ ''      vertex '' @ coords fmt v2 @ ''\<newline>''
     @ ''      vertex '' @ coords fmt v3 @ ''\<newline>''
     @ ''    endloop\<newline>''
     @ ''  endfacet\<newline>''"

text \<open>
  The body both loops share: the normal from the normals of the three corners
  when there are normals, from the edges otherwise, and then the text.
\<close>

definition triangle ::
  "(real \<Rightarrow> string) \<Rightarrow> point list \<Rightarrow> point list \<Rightarrow> nat option \<Rightarrow> nat option \<Rightarrow> nat option
     \<Rightarrow> error + string" where
  "triangle fmt vertices normals i1 i2 i3 =
     (case (if length normals > 0 then
              (case (elemAt normals i1, elemAt normals i2, elemAt normals i3) of
                 (Some n1, Some n2, Some n3) \<Rightarrow> Some (vnormalize (vadd (vadd n1 n2) n3))
               | _ \<Rightarrow> None)
            else
              (case (elemAt vertices i1, elemAt vertices i2, elemAt vertices i3) of
                 (Some v1, Some v2, Some v3) \<Rightarrow>
                   Some (vnormalize (crossVectors (subVectors v2 v1) (subVectors v3 v1)))
               | _ \<Rightarrow> None)) of
        None \<Rightarrow> Inl TypeError
      | Some normal \<Rightarrow>
          (case (elemAt vertices i1, elemAt vertices i2, elemAt vertices i3) of
             (Some v1, Some v2, Some v3) \<Rightarrow> Inr (facet fmt normal v1 v2 v3)
           | _ \<Rightarrow> Inl TypeError))"

text \<open>\<^verbatim>\<open>for (let i = 0; i < index.count; i += 3)\<close>\<close>

function indexedFacets ::
  "(real \<Rightarrow> string) \<Rightarrow> point list \<Rightarrow> point list \<Rightarrow> nat list \<Rightarrow> nat \<Rightarrow> error + string" where
  "indexedFacets fmt vertices normals index i =
     (if i < length index then
        (case triangle fmt vertices normals
                (elemAt index (Some i)) (elemAt index (Some (i + 1))) (elemAt index (Some (i + 2))) of
           Inl e \<Rightarrow> Inl e
         | Inr t \<Rightarrow>
             (case indexedFacets fmt vertices normals index (i + 3) of
                Inl e \<Rightarrow> Inl e
              | Inr ts \<Rightarrow> Inr (t @ ts)))
      else Inr [])"
  by pat_completeness auto
termination
  by (relation "measure (\<lambda>(fmt, vertices, normals, index, i). length index - i)") auto

text \<open>
  \<^verbatim>\<open>for (let i = 0; i < vertices.length; i += 3)\<close>, with
  \<^verbatim>\<open>if (!v1 || !v2 || !v3) continue\<close>
\<close>

function soupFacets ::
  "(real \<Rightarrow> string) \<Rightarrow> point list \<Rightarrow> point list \<Rightarrow> nat \<Rightarrow> error + string" where
  "soupFacets fmt vertices normals i =
     (if i < length vertices then
        (if elemAt vertices (Some i) = None \<or> elemAt vertices (Some (i + 1)) = None
            \<or> elemAt vertices (Some (i + 2)) = None
         then soupFacets fmt vertices normals (i + 3)
         else
           (case triangle fmt vertices normals (Some i) (Some (i + 1)) (Some (i + 2)) of
              Inl e \<Rightarrow> Inl e
            | Inr t \<Rightarrow>
                (case soupFacets fmt vertices normals (i + 3) of
                   Inl e \<Rightarrow> Inl e
                 | Inr ts \<Rightarrow> Inr (t @ ts))))
      else Inr [])"
  by pat_completeness auto
termination
  by (relation "measure (\<lambda>(fmt, vertices, normals, i). length vertices - i)") auto

text \<open>The body of \<^verbatim>\<open>meshes.forEach\<close>: what one mesh adds to the text.\<close>

definition meshFacets :: "(real \<Rightarrow> string) \<Rightarrow> mesh \<Rightarrow> error + string" where
  "meshFacets fmt m =
     (case positionAttribute (meshGeometry m) of
        None \<Rightarrow> Inr []
      | Some positions \<Rightarrow>
          (let vertices = map (\<lambda>p. applyMatrix4 p (matrixWorld m)) positions;
               normals = (case normalAttribute (meshGeometry m) of
                            None \<Rightarrow> []
                          | Some ns \<Rightarrow>
                              map (\<lambda>n. applyMatrix4 n (extractRotation (matrixWorld m))) ns)
           in case indexAttribute (meshGeometry m) of
                Some index \<Rightarrow> indexedFacets fmt vertices normals index 0
              | None \<Rightarrow> soupFacets fmt vertices normals 0))"

fun forEachMesh :: "(real \<Rightarrow> string) \<Rightarrow> mesh list \<Rightarrow> error + string" where
  "forEachMesh fmt [] = Inr []"
| "forEachMesh fmt (m # ms) =
     (case meshFacets fmt m of
        Inl e \<Rightarrow> Inl e
      | Inr t \<Rightarrow> (case forEachMesh fmt ms of Inl e \<Rightarrow> Inl e | Inr ts \<Rightarrow> Inr (t @ ts)))"

definition generateSTL :: "(real \<Rightarrow> string) \<Rightarrow> scene \<Rightarrow> error + string" where
  "generateSTL fmt grp0 =
     (let meshes = collectMeshes grp0 in
      if length meshes = 0 then Inl (Error ''No meshes to export'')
      else (case forEachMesh fmt meshes of
              Inl e \<Rightarrow> Inl e
            | Inr body \<Rightarrow> Inr (''solid model\<newline>'' @ body @ ''endsolid model\<newline>'')))"

text \<open>
  \<^verbatim>\<open>exportToSTL\<close> downloads the text under the file name, or logs the error and
  throws it again; the download is the result here.
\<close>

definition exportToSTL :: "(real \<Rightarrow> string) \<Rightarrow> scene \<Rightarrow> string \<Rightarrow> error + (string \<times> string)" where
  "exportToSTL fmt grp0 filename =
     (case generateSTL fmt grp0 of
        Inl e \<Rightarrow> Inl e
      | Inr stlString \<Rightarrow> Inr (filename, stlString))"

text \<open>
  \<^verbatim>\<open>handleExportSTL\<close> of the renderer: the error it records for display, if any,
  and the download, if any. It returns in every case.
\<close>

definition handleExportSTL ::
  "(real \<Rightarrow> string) \<Rightarrow> scene option \<Rightarrow> string \<Rightarrow> error option \<times> (string \<times> string) option" where
  "handleExportSTL fmt modelGroup filename =
     (case modelGroup of
        None \<Rightarrow> (Some (Error ''No model to export''), None)
      | Some g \<Rightarrow>
          (case exportToSTL fmt g filename of
             Inl e \<Rightarrow> (Some e, None)
           | Inr download \<Rightarrow> (None, Some download)))"

subsection \<open>What the text is to hold\<close>










text \<open>
  The text of one triangle over the lists the loops work on, and the indices
  for which both lists have an entry.
\<close>

definition triNormal :: "point list \<Rightarrow> point list \<Rightarrow> nat \<times> nat \<times> nat \<Rightarrow> point" where
  "triNormal vs ns t =
     (case t of (a, b, c) \<Rightarrow>
        if ns = [] then vnormalize (crossVectors (subVectors (vs ! b) (vs ! a))
                                                 (subVectors (vs ! c) (vs ! a)))
        else vnormalize (vadd (vadd (ns ! a) (ns ! b)) (ns ! c)))"

definition triText :: "(real \<Rightarrow> string) \<Rightarrow> point list \<Rightarrow> point list \<Rightarrow> nat \<times> nat \<times> nat \<Rightarrow> string" where
  "triText fmt vs ns t =
     (case t of (a, b, c) \<Rightarrow> facet fmt (triNormal vs ns t) (vs ! a) (vs ! b) (vs ! c))"

definition covered :: "point list \<Rightarrow> point list \<Rightarrow> nat \<Rightarrow> bool" where
  "covered vs ns i = (i < length vs \<and> (ns = [] \<or> i < length ns))"

subsection \<open>Whole numbers as text\<close>

text \<open>
  JavaScript writes a whole number of magnitude below \<open>10 ^ 21\<close> in decimal
  digits. \<open>wholeToString\<close> does so; it stands for the conversion in the examples
  below, which only write whole numbers.
\<close>

fun digitsOf :: "nat \<Rightarrow> string" where
  "digitsOf n =
     (if n < 10 then [''0123456789'' ! n]
      else digitsOf (n div 10) @ [''0123456789'' ! (n mod 10)])"

definition wholeToString :: "real \<Rightarrow> string" where
  "wholeToString r = (if r < 0 then ''-'' else []) @ digitsOf (nat \<lfloor>\<bar>r\<bar>\<rfloor>)"

section \<open>Matching: facts used below\<close>

lemma matchk_Star_Cls:
  assumes "\<forall>x\<in>set xs. P x" and "case t of [] \<Rightarrow> True | y # _ \<Rightarrow> \<not> P y"
    and "k t cs = Some r"
  shows "matchk (Star (Cls P)) (xs @ t) cs k = Some r"
  using assms
proof (induction xs)
  case Nil
  then show ?case by (cases t) simp_all
next
  case (Cons x xs)
  then show ?case by simp
qed

lemma matchk_Grp_Plus_Cls:
  assumes "xs \<noteq> []" and "\<forall>x\<in>set xs. P x" and "case t of [] \<Rightarrow> True | y # _ \<Rightarrow> \<not> P y"
    and "matchk T t ((n, xs) # cs) k = Some r"
  shows "matchk (Cat (Grp n (Plus (Cls P))) T) (xs @ t) cs k = Some r"
proof -
  obtain x ys where xs: "xs = x # ys" using assms(1) by (cases xs) auto
  let ?K = "\<lambda>s' cs'. matchk T s' ((n, take (length (xs @ t) - length s') (xs @ t)) # cs') k"
  have "?K t cs = Some r" using assms(4) by simp
  with assms(2,3) have "matchk (Star (Cls P)) (ys @ t) cs ?K = Some r"
    unfolding xs by (intro matchk_Star_Cls) simp_all
  moreover have "matchk (Cat (Grp n (Plus (Cls P))) T) (xs @ t) cs k
      = matchk (Star (Cls P)) (ys @ t) cs ?K"
    using assms(2) unfolding xs by (simp add: Plus_def del: matchk.simps(6))
  ultimately show ?thesis by simp
qed

lemma split_last: "c \<notin> set a \<Longrightarrow> split c a = [a]"
  by (induction a) auto

lemma split_app: "c \<notin> set a \<Longrightarrow> split c (a @ c # t) = a # split c t"
  by (induction a) (auto split: list.splits)

lemma bracket_pre:
  "matchk cubeBracketRe ((js ''cube(['') @ s) cs k
   = matchk (Cat (Grp 1 (Plus (Cls (\<lambda>c. c \<noteq> cu (CHR '']'')))))
               (Cat (Chr (cu (CHR '']''))) (Cat (Star (Cls isSpace)) (Chr (cu (CHR '')'')))))) s cs k"
  by (simp add: cubeBracketRe_def isSpace_def Plus_def)

lemma bracket_post:
  "matchk (Cat (Chr (cu (CHR '']''))) (Cat (Star (Cls isSpace)) (Chr (cu (CHR '')'')))))
          ((js ''])'') @ rest) cs k = k rest cs"
  by (simp add: isSpace_def)

lemma bracket_match:
  assumes "body \<noteq> []" and "\<forall>ch\<in>set body. ch \<noteq> cu (CHR '']'')"
  shows "\<exists>w. match cubeBracketRe ((js ''cube(['') @ body @ (js ''])'') @ rest) = Some [(0, w), (1, body)]"
proof -
  let ?line = "(js ''cube(['') @ body @ (js ''])'') @ rest"
  let ?K = "\<lambda>s' cs'. Some (s', (0, take (length ?line - length s') ?line) # cs')"
  have "matchk (Cat (Grp 1 (Plus (Cls (\<lambda>c. c \<noteq> cu (CHR '']'')))))
                    (Cat (Chr (cu (CHR '']''))) (Cat (Star (Cls isSpace)) (Chr (cu (CHR '')''))))))
               (body @ ((js ''])'') @ rest)) [] ?K
        = Some (rest, [(0, take (length ?line - length rest) ?line), (1, body)])"
    using assms by (intro matchk_Grp_Plus_Cls) (simp_all only: bracket_post, simp_all)
  then have "matchk cubeBracketRe ((js ''cube(['') @ (body @ ((js ''])'') @ rest))) [] ?K
        = Some (rest, [(0, take (length ?line - length rest) ?line), (1, body)])"
    by (simp only: bracket_pre)
  then have "matchAt cubeBracketRe ?line
        = Some (rest, [(0, take (length ?line - length rest) ?line), (1, body)])"
    unfolding matchAt_def by (simp del: matchk.simps(6))
  then show ?thesis by simp
qed

lemma split_three:
  assumes "cu (CHR '','') \<notin> set a" and "cu (CHR '','') \<notin> set b" and "cu (CHR '','') \<notin> set c"
  shows "split (cu (CHR '','')) (a @ (js '','') @ b @ (js '','') @ c) = [a, b, c]"
  using assms by (simp add: split_app split_last)

lemma cubeParams_bracket:
  assumes "body \<noteq> []" and "\<forall>ch\<in>set body. ch \<noteq> cu (CHR '']'')"
  shows "cubeParams ((js ''cube(['') @ body @ (js ''])'') @ rest)
         = Some (map (\<lambda>s. parseFloat (trim s)) (split (cu (CHR '','')) body))"
proof -
  obtain w where
    m: "match cubeBracketRe ((js ''cube(['') @ body @ (js ''])'') @ rest) = Some [(0, w), (1, body)]"
    using bracket_match [OF assms] by blast
  have g: "grp [(0, w), (1, body)] 1 = body" by (simp add: grp_def)
  show ?thesis
    unfolding cubeParams_def m by (simp only: option.case g)
qed


lemma toNumber_ordinary:
  assumes "1 / 2 ^ 150 < \<bar>v\<bar>" and "\<bar>v\<bar> < 2 ^ 128"
  shows "toNumber v = Num v"
proof -
  have "underflowBound < 1 / 2 ^ 150" by (simp add: underflowBound_def)
  moreover have "(2::real) ^ 128 < overflowBound" by (simp add: overflowBound_def)
  ultimately show ?thesis using assms by (simp add: toNumber_def)
qed

lemma toNumber_whole: "toNumber 0 = Num 0" "toNumber 1 = Num 1" "toNumber 2 = Num 2"
  "toNumber 3 = Num 3" "toNumber 5 = Num 5" "toNumber 7 = Num 7" "toNumber 10 = Num 10"
  "toNumber 20 = Num 20" "toNumber 30 = Num 30" "toNumber (1 / 2) = Num (1 / 2)"
  "toNumber (5 / 2) = Num (5 / 2)" "toNumber 15 = Num 15"
  by (simp_all add: toNumber_def underflowBound_def overflowBound_def)

lemmas parseFloat_defs =
  parseFloat_def isSpace_def isDigit_def digitsVal_def toNumber_whole Let_def

lemma half_ordinary:
  assumes "inFloat32 (x / 2)"
  shows "half (Num x) = Num (x / 2)"
proof -
  have "(2 - 1 / 2 ^ 24) * 2 ^ 127 < (2::real) ^ 128" by simp
  with assms have "1 / 2 ^ 150 < \<bar>x / 2\<bar>" and "\<bar>x / 2\<bar> < 2 ^ 128"
    by (simp_all add: inFloat32_def)
  then show ?thesis by (simp add: toNumber_ordinary del: abs_divide)
qed

lemma orOne_falsy:
  "orOne v = (if v \<in> {Undefined, NaN, Num 0} then Num 1 else v)"
  by (cases v) auto

section \<open>Text without a needed code unit\<close>

lemma matchk_fails:
  assumes "\<And>s' cs'. set s' \<subseteq> set s \<Longrightarrow> k s' cs' = None"
  shows "matchk r s cs k = None"
  using assms
proof (induction r s cs k rule: matchk.induct)
  case (1 c s cs k)
  show ?case
  proof (cases s)
    case Nil
    then show ?thesis by simp
  next
    case (Cons x xs)
    have "k xs cs = None" by (rule "1.prems") (auto simp: Cons)
    with Cons show ?thesis by simp
  qed
next
  case (2 P s cs k)
  show ?case
  proof (cases s)
    case Nil
    then show ?thesis by simp
  next
    case (Cons x xs)
    have "k xs cs = None" by (rule "2.prems") (auto simp: Cons)
    with Cons show ?thesis by simp
  qed
next
  case (3 s cs k)
  have "k s cs = None" by (rule "3.prems") simp
  then show ?case by simp
next
  case (4 a b s cs k)
  have "matchk a s cs (\<lambda>s' cs'. matchk b s' cs' k) = None"
  proof (rule "4.IH"(2))
    fix s' cs' assume sub: "set s' \<subseteq> set s"
    show "matchk b s' cs' k = None"
    proof (rule "4.IH"(1))
      fix s'' cs'' assume "set s'' \<subseteq> set s'"
      with sub show "k s'' cs'' = None" by (intro "4.prems") auto
    qed
  qed
  then show ?case by simp
next
  case (5 a b s cs k)
  have a: "matchk a s cs k = None" by (rule "5.IH"(1)) (rule "5.prems")
  have "matchk b s cs k = None" by (rule "5.IH"(2) [OF a]) (rule "5.prems")
  with a show ?case by simp
next
  case (6 r s cs k)
  have "matchk r s cs
          (\<lambda>s' cs'. if length s' < length s then matchk (Star r) s' cs' k else None) = None"
  proof (rule "6.IH"(2))
    fix s' cs' assume sub: "set s' \<subseteq> set s"
    show "(if length s' < length s then matchk (Star r) s' cs' k else None) = None"
    proof (cases "length s' < length s")
      case True
      have "matchk (Star r) s' cs' k = None"
      proof (rule "6.IH"(1) [OF True])
        fix s'' cs'' assume "set s'' \<subseteq> set s'"
        with sub show "k s'' cs'' = None" by (intro "6.prems") auto
      qed
      with True show ?thesis by simp
    next
      case False
      then show ?thesis by simp
    qed
  qed
  moreover have "k s cs = None" by (intro "6.prems") simp
  ultimately show ?case by (subst matchk.simps) simp
next
  case (7 r s cs k)
  have k: "k s cs = None" by (intro "7.prems") simp
  have "matchk r s cs
          (\<lambda>s' cs'. if length s' < length s then matchk (Lazy r) s' cs' k else None) = None"
  proof (rule "7.IH"(2) [OF k])
    fix s' cs' assume sub: "set s' \<subseteq> set s"
    show "(if length s' < length s then matchk (Lazy r) s' cs' k else None) = None"
    proof (cases "length s' < length s")
      case True
      have "matchk (Lazy r) s' cs' k = None"
      proof (rule "7.IH"(1) [OF k True])
        fix s'' cs'' assume "set s'' \<subseteq> set s'"
        with sub show "k s'' cs'' = None" by (intro "7.prems") auto
      qed
      with True show ?thesis by simp
    next
      case False
      then show ?thesis by simp
    qed
  qed
  with k show ?case by (subst matchk.simps) simp
next
  case (8 n r s cs k)
  have "matchk r s cs (\<lambda>s' cs'. k s' ((n, take (length s - length s') s) # cs')) = None"
    by (rule "8.IH") (intro "8.prems")
  then show ?case by simp
qed

lemma matchk_needs:
  assumes "needs c r" and "c \<notin> set s"
  shows "matchk r s cs k = None"
  using assms
proof (induction r arbitrary: s cs k)
  case (Chr d)
  then show ?case by (cases s) auto
next
  case (Cat a b)
  show ?case
  proof (cases "needs c a")
    case True
    with Cat show ?thesis by simp
  next
    case False
    with Cat.prems have b: "needs c b" by simp
    have "matchk a s cs (\<lambda>s' cs'. matchk b s' cs' k) = None"
    proof (rule matchk_fails)
      fix s' cs' assume "set s' \<subseteq> set s"
      with Cat.prems(2) have "c \<notin> set s'" by auto
      with b show "matchk b s' cs' k = None" by (rule Cat.IH(2))
    qed
    then show ?thesis by simp
  qed
next
  case (Alt a b)
  then show ?case by simp
next
  case (Grp n r)
  then show ?case by simp
qed simp_all

lemma match_needs:
  assumes "needs c r" and "c \<notin> set s"
  shows "match r s = None"
  using assms(2)
proof (induction s)
  case Nil
  with assms(1) show ?case by (simp add: matchAt_def matchk_needs del: matchk.simps)
next
  case (Cons x xs)
  then have "matchAt r (x # xs) = None"
    using assms(1) by (simp add: matchAt_def matchk_needs del: matchk.simps)
  with Cons show ?case by simp
qed

lemma needs_cube:
  "needs (cu (CHR '')'')) cubeBracketRe" "needs (cu (CHR '')'')) cubeSingleRe"
  by (simp_all add: cubeBracketRe_def cubeSingleRe_def Plus_def)

lemma parseCube_unclosed:
  assumes "cu (CHR '')'') \<notin> set l"
  shows "parseCube l = None"
proof -
  have "match cubeBracketRe l = None" "match cubeSingleRe l = None"
    using assms by (rule match_needs [OF needs_cube(1)], rule match_needs [OF needs_cube(2)])
  then show ?thesis by (simp add: parseCube_def cubeParams_def)
qed

section \<open>The cube primitive\<close>

lemmas cube_defs =
  parseCube_def cubeParams_def cubeSize_def cubeMesh_def cubeBracketRe_def cubeSingleRe_def
  matchAt_def Plus_def grp_def idx_def trim_def isSpace_def isDigit_def parseFloat_def
  digitsVal_def toNumber_def overflowBound_def underflowBound_def Let_def



lemma bracket_pre_p000:
  "matchk cubeBracketRe_p000 ((js ''cube(['') @ s) cs k
   = matchk (Cat (Grp 1 (Plus (Cls (\<lambda>c. c \<noteq> cu (CHR '']''))))) (Chr (cu (CHR '']'')))) s cs k"
  by (simp add: cubeBracketRe_p000_def isSpace_def Plus_def)

lemma bracket_match_p000:
  assumes "body \<noteq> []" and "\<forall>ch\<in>set body. ch \<noteq> cu (CHR '']'')"
  shows "\<exists>w. match cubeBracketRe_p000 ((js ''cube(['') @ body @ (js '']'') @ rest) = Some [(0, w), (1, body)]"
proof -
  let ?line = "(js ''cube(['') @ body @ (js '']'') @ rest"
  let ?K = "\<lambda>s' cs'. Some (s', (0, take (length ?line - length s') ?line) # cs')"
  have "matchk (Cat (Grp 1 (Plus (Cls (\<lambda>c. c \<noteq> cu (CHR '']''))))) (Chr (cu (CHR '']''))))
               (body @ ((js '']'') @ rest)) [] ?K
        = Some (rest, [(0, take (length ?line - length rest) ?line), (1, body)])"
    using assms by (intro matchk_Grp_Plus_Cls) simp_all
  then have "matchk cubeBracketRe_p000 ((js ''cube(['') @ (body @ ((js '']'') @ rest))) [] ?K
        = Some (rest, [(0, take (length ?line - length rest) ?line), (1, body)])"
    by (simp only: bracket_pre_p000)
  then have "matchAt cubeBracketRe_p000 ?line
        = Some (rest, [(0, take (length ?line - length rest) ?line), (1, body)])"
    unfolding matchAt_def by (simp del: matchk.simps(6))
  then show ?thesis by simp
qed

text \<open>
  The variant of \<^verbatim>\<open>src/unnamed/part_000\<close> builds the same mesh, the components
  being looked up among the variables first.
\<close>

lemma cube_bounding_box_p000:
  assumes "\<forall>ch\<in>set (a @ b @ c). ch \<noteq> cu (CHR '','') \<and> ch \<noteq> cu (CHR '']'')"
    and "valueOf vars (trim a) = Num x" and "valueOf vars (trim b) = Num y"
    and "valueOf vars (trim c) = Num z"
    and "0 < x" and "0 < y" and "0 < z"
    and "inFloat32 (x / 2)" and "inFloat32 (y / 2)" and "inFloat32 (z / 2)"
  shows "\<exists>m. parseCube_p000 ((js ''cube(['') @ (a @ (js '','') @ b @ (js '','') @ c) @ (js '']'') @ rest) vars = Some m
           \<and> geometry m = BoxGeometry (Num x) (Num y) (Num z)
           \<and> position m = (Num (x / 2), Num (y / 2), Num (z / 2))
           \<and> rotation m = origin
           \<and> meshBounds m = Some ((0, 0, 0), (x, y, z))"
proof -
  have 1: "\<forall>ch\<in>set (a @ (js '','') @ b @ (js '','') @ c). ch \<noteq> cu (CHR '']'')" using assms(1) by auto
  have 2: "a @ (js '','') @ b @ (js '','') @ c \<noteq> []" by simp
  have "cu (CHR '','') \<notin> set a" "cu (CHR '','') \<notin> set b" "cu (CHR '','') \<notin> set c" using assms(1) by auto
  then have 3: "split (cu (CHR '','')) (a @ (js '','') @ b @ (js '','') @ c) = [a, b, c]" by (rule split_three)
  obtain w where m: "match cubeBracketRe_p000 ((js ''cube(['') @ (a @ (js '','') @ b @ (js '','') @ c) @ (js '']'') @ rest)
      = Some [(0, w), (1, a @ (js '','') @ b @ (js '','') @ c)]"
    using bracket_match_p000 [OF 2 1] by blast
  have g: "grp [(0, w), (1, a @ (js '','') @ b @ (js '','') @ c)] 1 = a @ (js '','') @ b @ (js '','') @ c"
    by (simp add: grp_def)
  have h: "half (Num x) = Num (x / 2)" "half (Num y) = Num (y / 2)" "half (Num z) = Num (z / 2)"
    using assms(8-) by (simp_all only: half_ordinary)
  have "parseCube_p000 ((js ''cube(['') @ (a @ (js '','') @ b @ (js '','') @ c) @ (js '']'') @ rest) vars
        = Some (Mesh (BoxGeometry (Num x) (Num y) (Num z)) (MeshPhongMaterial 0x667eea True 0.9)
                  (Num (x / 2), Num (y / 2), Num (z / 2)) origin)"
    unfolding parseCube_p000_def m option.case g 3
    using assms(2-7) by (simp add: cubeSize_def cubeMesh_def idx_def h del: half.simps)
  moreover have "meshBounds (Mesh (BoxGeometry (Num x) (Num y) (Num z))
                    (MeshPhongMaterial 0x667eea True 0.9)
                    (Num (x / 2), Num (y / 2), Num (z / 2)) origin) = Some ((0, 0, 0), (x, y, z))"
    using assms(5-) by simp
  ultimately show ?thesis by simp
qed

text \<open>
  Outside that range the extents are not those written: \<^verbatim>\<open>1e309\<close> is read as
  \<^verbatim>\<open>Infinity\<close>, so the box and its position are infinite along \<open>x\<close>, and
  \<^verbatim>\<open>1e-324\<close> is read as zero, in whose place \<^verbatim>\<open>|| 1\<close> puts 1. White space of
  any kind before a component is skipped, here a no-break space.
\<close>

lemma cube_out_of_range:
  "parseCube (js ''cube([1e309,1,1])'')
   = Some (Mesh (BoxGeometry (Infinity False) (Num 1) (Num 1)) (MeshPhongMaterial 0x667eea True 0.9)
             (Infinity False, Num (1 / 2), Num (1 / 2)) origin)"
  "meshBounds (Mesh (BoxGeometry (Infinity False) (Num 1) (Num 1))
                 (MeshPhongMaterial 0x667eea True 0.9)
                 (Infinity False, Num (1 / 2), Num (1 / 2)) origin) = None"
  "parseCube (js ''cube([1e-324,2,3])'')
   = Some (Mesh (BoxGeometry (Num 1) (Num 2) (Num 3)) (MeshPhongMaterial 0x667eea True 0.9)
             (Num (1 / 2), Num 1, Num (3 / 2)) origin)"
  "parseCube (js ''cube(['' @ [0xA0] @ js ''5,2,3])'')
   = Some (Mesh (BoxGeometry (Num 5) (Num 2) (Num 3)) (MeshPhongMaterial 0x667eea True 0.9)
             (Num (5 / 2), Num 1, Num (3 / 2)) origin)"
  by (simp_all add: cube_defs)

text \<open>
  C10. For a bracketed size list \<^verbatim>\<open>parseCube\<close> reads every component with
  \<^verbatim>\<open>parseFloat\<close>. A list of two or more components gives the first three as
  extents, with 1 in place of each one that is missing, zero or \<^verbatim>\<open>NaN\<close>:
  \<^verbatim>\<open>cube([10,0,5])\<close> has extents \<open>[10,1,5]\<close> and \<^verbatim>\<open>cube([10,10])\<close> has
  \<open>[10,10,1]\<close>. A list of one component \<open>c\<close> gives the extents \<open>[c,c,c]\<close> with
  nothing put in its place, also when \<open>c\<close> is zero or \<^verbatim>\<open>NaN\<close>. The mesh is placed
  at half its extents.
\<close>

theorem cube_defaults:
  assumes "body \<noteq> []" and "\<forall>ch\<in>set body. ch \<noteq> cu (CHR '']'')"
    and "params = map (\<lambda>s. parseFloat (trim s)) (split (cu (CHR '','')) body)"
  shows "\<exists>m sx sy sz. parseCube ((js ''cube(['') @ body @ (js ''])'') @ rest) = Some m
           \<and> geometry m = BoxGeometry sx sy sz
           \<and> position m = (half sx, half sy, half sz)
           \<and> (if length params = 1
               then sx = idx params 0 \<and> sy = idx params 0 \<and> sz = idx params 0
               else sx = (if idx params 0 \<in> {Undefined, NaN, Num 0} then Num 1 else idx params 0)
                  \<and> sy = (if idx params 1 \<in> {Undefined, NaN, Num 0} then Num 1 else idx params 1)
                  \<and> sz = (if idx params 2 \<in> {Undefined, NaN, Num 0} then Num 1 else idx params 2))"
proof -
  have p: "cubeParams ((js ''cube(['') @ body @ (js ''])'') @ rest) = Some params"
    using cubeParams_bracket [OF assms(1,2)] assms(3) by simp
  show ?thesis
  proof (cases "length params = 1")
    case True
    then have "cubeSize params = (idx params 0, idx params 0, idx params 0)"
      by (simp add: cubeSize_def)
    with p have "parseCube ((js ''cube(['') @ body @ (js ''])'') @ rest)
        = Some (cubeMesh (idx params 0, idx params 0, idx params 0))"
      by (simp add: parseCube_def)
    with True show ?thesis by (simp add: cubeMesh_def)
  next
    case False
    then have "cubeSize params = (orOne (idx params 0), orOne (idx params 1), orOne (idx params 2))"
      by (simp add: cubeSize_def)
    with p have "parseCube ((js ''cube(['') @ body @ (js ''])'') @ rest)
        = Some (cubeMesh (orOne (idx params 0), orOne (idx params 1), orOne (idx params 2)))"
      by (simp add: parseCube_def)
    with False show ?thesis by (simp add: cubeMesh_def orOne_falsy)
  qed
qed

theorem cube_defaults_witness:
  "(\<exists>m. parseCube (js ''cube([10,0,5])'') = Some m
        \<and> geometry m = BoxGeometry (Num 10) (Num 1) (Num 5)
        \<and> position m = (Num 5, Num (1 / 2), Num (5 / 2)))
   \<and> (\<exists>m. parseCube (js ''cube([10,10])'') = Some m
        \<and> geometry m = BoxGeometry (Num 10) (Num 10) (Num 1)
        \<and> position m = (Num 5, Num 5, Num (1 / 2)))
   \<and> (\<exists>m. parseCube (js ''cube([5])'') = Some m
        \<and> geometry m = BoxGeometry (Num 5) (Num 5) (Num 5)
        \<and> position m = (Num (5 / 2), Num (5 / 2), Num (5 / 2)))"
proof -
  have 1: "js ''10,0,5'' \<noteq> []" "\<forall>ch\<in>set (js ''10,0,5''). ch \<noteq> cu (CHR '']'')"
    "[Num 10, Num 0, Num 5]
     = map (\<lambda>s. parseFloat (trim s)) (split (cu (CHR '','')) (js ''10,0,5''))"
    by (simp_all add: parseFloat_defs trim_def)
  have 2: "js ''10,10'' \<noteq> []" "\<forall>ch\<in>set (js ''10,10''). ch \<noteq> cu (CHR '']'')"
    "[Num 10, Num 10]
     = map (\<lambda>s. parseFloat (trim s)) (split (cu (CHR '','')) (js ''10,10''))"
    by (simp_all add: parseFloat_defs trim_def)
  have 3: "js ''5'' \<noteq> []" "\<forall>ch\<in>set (js ''5''). ch \<noteq> cu (CHR '']'')"
    "[Num 5] = map (\<lambda>s. parseFloat (trim s)) (split (cu (CHR '','')) (js ''5''))"
    by (simp_all add: parseFloat_defs trim_def)
  show ?thesis
    using cube_defaults [OF 1, of "[]"] cube_defaults [OF 2, of "[]"] cube_defaults [OF 3, of "[]"]
    by (simp add: idx_def toNumber_whole)
qed

text \<open>
  A list of one component is the edge of a cube, with nothing put in its place:
  \<^verbatim>\<open>cube([0])\<close> is a box of extents \<open>[0,0,0]\<close>.
\<close>

theorem cube_defaults_counterexample:
  "parseCube (js ''cube([0])'')
   = Some (Mesh (BoxGeometry (Num 0) (Num 0) (Num 0)) (MeshPhongMaterial 0x667eea True 0.9)
             (Num 0, Num 0, Num 0) origin)"
  by (simp add: cube_defs)

section \<open>The exporter's loops\<close>

declare indexedFacets.simps [simp del] soupFacets.simps [simp del]

lemma triangle_covered:
  assumes "covered vs ns a" and "covered vs ns b" and "covered vs ns c"
  shows "triangle fmt vs ns (Some a) (Some b) (Some c) = Inr (triText fmt vs ns (a, b, c))"
  using assms by (auto simp: triangle_def covered_def elemAt_def triText_def triNormal_def)










lemma digits_small: "wholeToString 0 = ''0''" "wholeToString 1 = ''1''"
  "wholeToString 10 = ''10''" "wholeToString 11 = ''11''" "wholeToString (- 1) = ''-1''"
  by (simp_all add: wholeToString_def)

section \<open>What the exporter writes\<close>



lemma vnormalize_coordinates:
  "vnormalize (x, y, z)
   = (let l = sqrt (x * x + y * y + z * z) in
      if l = 0 then (x, y, z) else (x / l, y / l, z / l))"
  by (simp add: Let_def)

lemma sqrt_samples: "sqrt 576 = 24" "sqrt (121 / 25) = 11 / 5"
  by (rule real_sqrt_unique; simp add: power2_eq_square)+

lemma digits_more: "wholeToString 3 = ''3''" "wholeToString 8 = ''8''" "wholeToString 9 = ''9''"
  "wholeToString 12 = ''12''" "wholeToString (- 3) = ''-3''"
  by (simp_all add: wholeToString_def)

text \<open>
  C7. three.js keeps normals in the \<^verbatim>\<open>normal\<close> attribute, one for every vertex.
  For a triangle whose corners have positions, with world coordinates
  \<open>(x1, y1, z1)\<close>, \<open>(x2, y2, z2)\<close> and \<open>(x3, y3, z3)\<close>: when the geometry has no normals
  the facet normal is the cross product of the edge from the first corner to the
  second with the edge from the first to the third, divided by its length, or
  left as it is when it is zero. When the geometry has normals, the facet normal
  is the sum of the normals of the three corners, each turned by the rotation of
  the world matrix, divided by its length in the same way; the edges are not
  looked at.
\<close>

theorem facet_normal_source:
  assumes "i1 < length positions" and "i2 < length positions" and "i3 < length positions"
    and "vertices = map (\<lambda>p. applyMatrix4 p W) positions"
    and "normals = map (\<lambda>n. applyMatrix4 n (extractRotation W)) carried"
    and "applyMatrix4 (positions ! i1) W = (x1, y1, z1)"
    and "applyMatrix4 (positions ! i2) W = (x2, y2, z2)"
    and "applyMatrix4 (positions ! i3) W = (x3, y3, z3)"
  shows
    "(carried = [] \<longrightarrow>
        (let cx = (y2 - y1) * (z3 - z1) - (z2 - z1) * (y3 - y1);
             cy = (z2 - z1) * (x3 - x1) - (x2 - x1) * (z3 - z1);
             cz = (x2 - x1) * (y3 - y1) - (y2 - y1) * (x3 - x1);
             l = sqrt (cx * cx + cy * cy + cz * cz)
         in triangle fmt vertices normals (Some i1) (Some i2) (Some i3)
            = Inr (facet fmt (if l = 0 then (cx, cy, cz) else (cx / l, cy / l, cz / l))
                     (x1, y1, z1) (x2, y2, z2) (x3, y3, z3))))
     \<and> (i1 < length carried \<and> i2 < length carried \<and> i3 < length carried
          \<and> applyMatrix4 (carried ! i1) (extractRotation W) = (a1, b1, c1)
          \<and> applyMatrix4 (carried ! i2) (extractRotation W) = (a2, b2, c2)
          \<and> applyMatrix4 (carried ! i3) (extractRotation W) = (a3, b3, c3) \<longrightarrow>
        (let sx = a1 + a2 + a3; sy = b1 + b2 + b3; sz = c1 + c2 + c3;
             l = sqrt (sx * sx + sy * sy + sz * sz)
         in triangle fmt vertices normals (Some i1) (Some i2) (Some i3)
            = Inr (facet fmt (if l = 0 then (sx, sy, sz) else (sx / l, sy / l, sz / l))
                     (x1, y1, z1) (x2, y2, z2) (x3, y3, z3))))"
proof (intro conjI impI)
  have v: "vertices ! i1 = (x1, y1, z1)" "vertices ! i2 = (x2, y2, z2)"
    "vertices ! i3 = (x3, y3, z3)"
    using assms by simp_all
  {
    assume e: "carried = []"
    then have "covered vertices normals i1" "covered vertices normals i2"
      "covered vertices normals i3"
      using assms(1-5) by (simp_all add: covered_def)
    then have "triangle fmt vertices normals (Some i1) (Some i2) (Some i3)
               = Inr (triText fmt vertices normals (i1, i2, i3))"
      by (rule triangle_covered)
    moreover have "normals = []" using e assms(5) by simp
    ultimately have "triangle fmt vertices normals (Some i1) (Some i2) (Some i3)
        = Inr (facet fmt (vnormalize ((y2 - y1) * (z3 - z1) - (z2 - z1) * (y3 - y1),
                                      (z2 - z1) * (x3 - x1) - (x2 - x1) * (z3 - z1),
                                      (x2 - x1) * (y3 - y1) - (y2 - y1) * (x3 - x1)))
                 (x1, y1, z1) (x2, y2, z2) (x3, y3, z3))"
      by (simp add: triText_def triNormal_def v del: vnormalize.simps)
    then show "let cx = (y2 - y1) * (z3 - z1) - (z2 - z1) * (y3 - y1);
             cy = (z2 - z1) * (x3 - x1) - (x2 - x1) * (z3 - z1);
             cz = (x2 - x1) * (y3 - y1) - (y2 - y1) * (x3 - x1);
             l = sqrt (cx * cx + cy * cy + cz * cz)
         in triangle fmt vertices normals (Some i1) (Some i2) (Some i3)
            = Inr (facet fmt (if l = 0 then (cx, cy, cz) else (cx / l, cy / l, cz / l))
                     (x1, y1, z1) (x2, y2, z2) (x3, y3, z3))"
      by (simp only: vnormalize_coordinates Let_def if_distrib [of "facet fmt"]) 
  }
  {
    assume c: "i1 < length carried \<and> i2 < length carried \<and> i3 < length carried
          \<and> applyMatrix4 (carried ! i1) (extractRotation W) = (a1, b1, c1)
          \<and> applyMatrix4 (carried ! i2) (extractRotation W) = (a2, b2, c2)
          \<and> applyMatrix4 (carried ! i3) (extractRotation W) = (a3, b3, c3)"
    then have "covered vertices normals i1" "covered vertices normals i2"
      "covered vertices normals i3"
      using assms(1-5) by (simp_all add: covered_def)
    then have "triangle fmt vertices normals (Some i1) (Some i2) (Some i3)
               = Inr (triText fmt vertices normals (i1, i2, i3))"
      by (rule triangle_covered)
    moreover have "normals \<noteq> []" using c assms(5) by auto
    moreover have "normals ! i1 = (a1, b1, c1)" "normals ! i2 = (a2, b2, c2)"
      "normals ! i3 = (a3, b3, c3)"
      using c assms(5) by simp_all
    ultimately have "triangle fmt vertices normals (Some i1) (Some i2) (Some i3)
        = Inr (facet fmt (vnormalize (a1 + a2 + a3, b1 + b2 + b3, c1 + c2 + c3))
                 (x1, y1, z1) (x2, y2, z2) (x3, y3, z3))"
      by (simp add: triText_def triNormal_def v del: vnormalize.simps)
    then show "let sx = a1 + a2 + a3; sy = b1 + b2 + b3; sz = c1 + c2 + c3;
             l = sqrt (sx * sx + sy * sy + sz * sz)
         in triangle fmt vertices normals (Some i1) (Some i2) (Some i3)
            = Inr (facet fmt (if l = 0 then (sx, sy, sz) else (sx / l, sy / l, sz / l))
                     (x1, y1, z1) (x2, y2, z2) (x3, y3, z3))"
      by (simp only: vnormalize_coordinates Let_def)
  }
qed

theorem facet_normal_source_witness:
  "triangle wholeToString
     (map (\<lambda>p. applyMatrix4 p (Matrix4 0 2 0 0  (- 2) 0 0 0  0 0 2 0  5 6 7 1))
          [(1, 1, 1), (3, 1, 1), (1, 4, 1)])
     [] (Some 0) (Some 1) (Some 2)
   = Inr ''  facet normal 0 0 1\<newline>    outer loop\<newline>      vertex 3 8 9\<newline>      vertex 3 12 9\<newline>      vertex -3 8 9\<newline>    endloop\<newline>  endfacet\<newline>''
   \<and> triangle wholeToString
     (map (\<lambda>p. applyMatrix4 p (Matrix4 0 2 0 0  (- 2) 0 0 0  0 0 2 0  5 6 7 1))
          [(1, 1, 1), (3, 1, 1), (1, 4, 1)])
     (map (\<lambda>n. applyMatrix4 n (extractRotation (Matrix4 0 2 0 0  (- 2) 0 0 0  0 0 2 0  5 6 7 1)))
          [(1, 0, 0), (3 / 5, 4 / 5, 0), (3 / 5, - 4 / 5, 0)])
     (Some 0) (Some 1) (Some 2)
   = Inr ''  facet normal 0 1 0\<newline>    outer loop\<newline>      vertex 3 8 9\<newline>      vertex 3 12 9\<newline>      vertex -3 8 9\<newline>    endloop\<newline>  endfacet\<newline>''"
proof -
  let ?ps = "[(1, 1, 1), (3, 1, 1), (1, 4, 1)] :: point list"
  let ?W = "Matrix4 0 2 0 0  (- 2) 0 0 0  0 0 2 0  5 6 7 1"
  let ?cs = "[(1, 0, 0), (3 / 5, 4 / 5, 0), (3 / 5, - 4 / 5, 0)] :: point list"
  have a: "(0::nat) < length ?ps" "(1::nat) < length ?ps" "(2::nat) < length ?ps" by simp_all
  have w: "applyMatrix4 (?ps ! 0) ?W = (3, 8, 9)" "applyMatrix4 (?ps ! 1) ?W = (3, 12, 9)"
    "applyMatrix4 (?ps ! 2) ?W = (- 3, 8, 9)"
    by simp_all
  have n: "([]::point list) = map (\<lambda>n. applyMatrix4 n (extractRotation ?W)) []" by simp
  have r: "applyMatrix4 (?cs ! 0) (extractRotation ?W) = (0, 1, 0)"
    "applyMatrix4 (?cs ! 1) (extractRotation ?W) = (- 4 / 5, 3 / 5, 0)"
    "applyMatrix4 (?cs ! 2) (extractRotation ?W) = (4 / 5, 3 / 5, 0)"
    by simp_all
  have first: "triangle wholeToString (map (\<lambda>p. applyMatrix4 p ?W) ?ps) [] (Some 0) (Some 1) (Some 2)
        = Inr ''  facet normal 0 0 1\<newline>    outer loop\<newline>      vertex 3 8 9\<newline>      vertex 3 12 9\<newline>      vertex -3 8 9\<newline>    endloop\<newline>  endfacet\<newline>''"
    using facet_normal_source [where fmt = wholeToString and carried = "[]", OF a refl n w]
    by (simp add: sqrt_samples facet_def coords_def digits_small digits_more)
  have second: "triangle wholeToString (map (\<lambda>p. applyMatrix4 p ?W) ?ps)
        (map (\<lambda>n. applyMatrix4 n (extractRotation ?W)) ?cs) (Some 0) (Some 1) (Some 2)
        = Inr ''  facet normal 0 1 0\<newline>    outer loop\<newline>      vertex 3 8 9\<newline>      vertex 3 12 9\<newline>      vertex -3 8 9\<newline>    endloop\<newline>  endfacet\<newline>''"
    using facet_normal_source [where fmt = wholeToString and carried = ?cs
        and ?a1.0 = 0 and ?b1.0 = 1 and ?c1.0 = 0 and ?a2.0 = "- 4 / 5" and ?b2.0 = "3 / 5"
        and ?c2.0 = 0 and ?a3.0 = "4 / 5" and ?b3.0 = "3 / 5" and ?c3.0 = 0, OF a refl refl w] r
    by (simp add: sqrt_samples facet_def coords_def digits_small digits_more)
  from first second show ?thesis by (simp only: simp_thms)
qed

text \<open>
  A triangle in the plane \<open>z = 0\<close> whose corners carry three different normals of
  length 1, as the vertices of a sphere or a cylinder do. The cross product of
  its edges is \<open>(0, 0, 1)\<close>, which is what is written when the normals are taken
  away; with them the text has the sum of the three, \<open>(11/5, 0, 0)\<close>, divided by
  its length.
\<close>

theorem smooth_normals_summed:
  "generateSTL wholeToString
     (Object3D None
        [Object3D (Some \<lparr>meshGeometry =
                            \<lparr>positionAttribute = Some [(0, 0, 0), (1, 0, 0), (0, 1, 0)],
                             normalAttribute = Some [(1, 0, 0), (3 / 5, 4 / 5, 0), (3 / 5, - 4 / 5, 0)],
                             indexAttribute = Some [0, 1, 2]\<rparr>,
                          matrixWorld = Matrix4 1 0 0 0  0 1 0 0  0 0 1 0  0 0 0 1\<rparr>) []])
   = Inr ''solid model\<newline>  facet normal 1 0 0\<newline>    outer loop\<newline>      vertex 0 0 0\<newline>      vertex 1 0 0\<newline>      vertex 0 1 0\<newline>    endloop\<newline>  endfacet\<newline>endsolid model\<newline>''
   \<and> generateSTL wholeToString
     (Object3D None
        [Object3D (Some \<lparr>meshGeometry =
                            \<lparr>positionAttribute = Some [(0, 0, 0), (1, 0, 0), (0, 1, 0)],
                             normalAttribute = None,
                             indexAttribute = Some [0, 1, 2]\<rparr>,
                          matrixWorld = Matrix4 1 0 0 0  0 1 0 0  0 0 1 0  0 0 0 1\<rparr>) []])
   = Inr ''solid model\<newline>  facet normal 0 0 1\<newline>    outer loop\<newline>      vertex 0 0 0\<newline>      vertex 1 0 0\<newline>      vertex 0 1 0\<newline>    endloop\<newline>  endfacet\<newline>endsolid model\<newline>''"
  by (simp add: generateSTL_def meshFacets_def indexedFacets.simps triangle_def elemAt_def
      facet_def coords_def digits_small sqrt_samples)

text \<open>
  C9. When the scene has no mesh, \<^verbatim>\<open>generateSTL\<close> throws the error
  \<^verbatim>\<open>No meshes to export\<close>, \<^verbatim>\<open>exportToSTL\<close> throws it again and downloads
  nothing, and the handler of the export button records it and returns.
\<close>

theorem empty_export_error:
  assumes "collectMeshes scn = []"
  shows "generateSTL fmt scn = Inl (Error ''No meshes to export'')
         \<and> exportToSTL fmt scn filename = Inl (Error ''No meshes to export'')
         \<and> handleExportSTL fmt (Some scn) filename = (Some (Error ''No meshes to export''), None)"
  using assms by (simp add: generateSTL_def exportToSTL_def handleExportSTL_def)

theorem empty_export_error_witness:
  "collectMeshes (Object3D None [Object3D None []]) = []
   \<and> generateSTL wholeToString (Object3D None [Object3D None []])
       = Inl (Error ''No meshes to export'')
   \<and> exportToSTL wholeToString (Object3D None [Object3D None []]) ''model.stl''
       = Inl (Error ''No meshes to export'')
   \<and> handleExportSTL wholeToString (Some (Object3D None [Object3D None []])) ''model.stl''
       = (Some (Error ''No meshes to export''), None)"
proof -
  have "collectMeshes (Object3D None [Object3D None []]) = []" by simp
  then show ?thesis
    using empty_export_error [of "Object3D None [Object3D None []]" wholeToString "''model.stl''"]
    by simp
qed

section \<open>Running the converters\<close>

lemmas converter_defs =
  parseOpenSCADToThreeJS_def cleanCode_def parseStatement_def parseCube_def cubeParams_def
  cubeSize_def cubeMesh_def parseSphere_def parseCylinder_def named_def namedRe_def
  parseTranslate_def parseRotate_def parseChild_def parseDifference_def
  cubeBracketRe_def cubeSingleRe_def sphereRe_def transformRe_def childRe_def differenceRe_def
  blockCommentRe_def notCommaParen_def matchAt_def Plus_def Opt_def grp_def idx_def
  vectorSet_def trim_def isSpace_def isWord_def isDigit_def parseFloat_def digitsVal_def
  toNumber_def overflowBound_def underflowBound_def Let_def

lemmas converter_p000_defs =
  parseOpenSCADToThreeJS_p000_def extractVariables_def assignmentRe_def parseComplexStructure_def
  parseStatement_p000_def parseCube_p000_def cubeBracketRe_p000_def cubeSingleRe_p000_def
  valueOf_def placeholder_def

lemma parseLines_map_filter:
  "parseLines clean ls added
   = added @ List.map_filter
       (\<lambda>l. if trim l = [] then None else parseStatement (trim l) clean) ls"
  by (induction ls arbitrary: added) (simp_all add: List.map_filter_simps Let_def split: option.splits)

lemma parseLines_p000_map_filter:
  "parseLines_p000 vars ls added
   = added @ List.map_filter
       (\<lambda>l. if trim l = [] then None else parseStatement_p000 (trim l) vars) ls"
  by (induction ls arbitrary: added) (simp_all add: List.map_filter_simps Let_def split: option.splits)

lemma map_filter_empty:
  "(\<forall>x\<in>set xs. f x = None) \<Longrightarrow> List.map_filter f xs = []"
  by (induction xs) (simp_all add: List.map_filter_simps)

lemma difference_example:
  "parseDifference (js ''difference(){ cube([10,10,10]); sphere(r=3); }'')
   = Some (Group origin origin
       [Mesh (BoxGeometry (Num 10) (Num 10) (Num 10)) (MeshPhongMaterial 0xed8936 True 0.9)
             (Num 5, Num 5, Num 5) origin])"
  by (simp add: converter_defs)

lemma translate_called_alone:
  "parseTranslate (js ''translate([1,2,3]) cube([1,1,1]);'') (js ''translate([1,2,3]) cube([1,1,1]);'')
   = Some (Group (Num 1, Num 2, Num 3) origin
       [Mesh (BoxGeometry (Num 1) (Num 1) (Num 1)) (MeshPhongMaterial 0x667eea True 0.9)
             (Num (1 / 2), Num (1 / 2), Num (1 / 2)) origin])"
  by (simp add: converter_defs)

text \<open>The variant of \<^verbatim>\<open>src/unnamed/part_000\<close> on the same two inputs.\<close>

lemma difference_block_p000:
  "parseOpenSCADToThreeJS_p000 (js ''difference() {\<newline>  sphere(r=5);\<newline>  cube([1,1,1]);\<newline>}'')
   = Group origin origin
       [Mesh (BoxGeometry (Num 1) (Num 1) (Num 1)) (MeshPhongMaterial 0x8b5cf6 True 0.85)
             (Num (1 / 2), Num (1 / 2), Num (1 / 2)) origin]"
  by (simp add: converter_defs converter_p000_defs parseDifferenceBlock_def blockRe_def
      extractShapes_def translateShapeRe_def cubeShapeRe_def List.map_filter_simps)

lemma translate_same_line_p000:
  "parseOpenSCADToThreeJS_p000 (js ''translate([1,2,3]) cube([1,1,1]);'')
   = Group origin origin
       [Mesh (BoxGeometry (Num 1) (Num 1) (Num 1)) (MeshPhongMaterial 0x667eea True 0.9)
             (Num (1 / 2), Num (1 / 2), Num (1 / 2)) origin]"
  by (simp add: converter_defs converter_p000_defs)

section \<open>Lines, comments and unmatched statements\<close>







lemma unmatched_dropped:
  assumes "unmatched l"
  shows "parseStatement l clean = None"
proof (cases "includesStr l (js ''cube('')")
  case True
  with assms have "cu (CHR '')'') \<notin> set l" by (simp add: unmatched_def hasKeyword_def)
  then have "parseCube l = None" by (rule parseCube_unclosed)
  with True show ?thesis by (simp add: parseStatement_def)
next
  case False
  with assms have "\<not> hasKeyword l" by (simp add: unmatched_def)
  then show ?thesis by (simp add: parseStatement_def hasKeyword_def)
qed

lemma no_keyword_p000:
  "\<not> hasKeyword_p000 l \<Longrightarrow> parseStatement_p000 l vars = None"
  "\<not> hasBlock_p000 code \<Longrightarrow> parseComplexStructure code vars = None"
  by (simp_all add: parseStatement_p000_def hasKeyword_p000_def parseComplexStructure_def
      hasBlock_p000_def)


section \<open>What the converter returns\<close>

text \<open>
  C1. In the converter of \<^verbatim>\<open>src/utils/openscadConverter.ts\<close> a buffer every line
  of which, comments removed, is unmatched (it holds none of \<^verbatim>\<open>cube(\<close>,
  \<^verbatim>\<open>sphere(\<close>, \<^verbatim>\<open>cylinder(\<close>, \<^verbatim>\<open>translate(\<close>, \<^verbatim>\<open>rotate(\<close> and \<^verbatim>\<open>difference()\<close>, or it
  is a cube call that is never closed) fails with the error
  \<^verbatim>\<open>No valid OpenSCAD primitives found\<close>. The variant in \<^verbatim>\<open>src/unnamed/part_000\<close>
  returns a group holding the placeholder box when the buffer names no block
  structure and no line of it holds \<^verbatim>\<open>cube(\<close>, \<^verbatim>\<open>sphere(\<close> or \<^verbatim>\<open>cylinder(\<close>.
\<close>

theorem no_geometry:
  "((\<forall>l\<in>set (split (cu (CHR 0x0A)) (cleanCode code)). unmatched (trim l))
      \<longrightarrow> parseOpenSCADToThreeJS code = Inl (Error noPrimitives))
   \<and> (\<not> hasBlock_p000 (cleanCode code)
       \<and> (\<forall>l\<in>set (split (cu (CHR 0x0A)) (cleanCode code)). \<not> hasKeyword_p000 (trim l))
      \<longrightarrow> parseOpenSCADToThreeJS_p000 code = Group origin origin [placeholder])"
proof (intro conjI impI)
  assume "\<forall>l\<in>set (split (cu (CHR 0x0A)) (cleanCode code)). unmatched (trim l)"
  then have "\<forall>l\<in>set (split (cu (CHR 0x0A)) (cleanCode code)).
      (if trim l = [] then None else parseStatement (trim l) (cleanCode code)) = None"
    by (simp add: unmatched_dropped)
  then have "List.map_filter
       (\<lambda>l. if trim l = [] then None else parseStatement (trim l) (cleanCode code))
       (split (cu (CHR 0x0A)) (cleanCode code)) = []"
    by (rule map_filter_empty)
  then show "parseOpenSCADToThreeJS code = Inl (Error noPrimitives)"
    by (simp add: parseOpenSCADToThreeJS_def parseLines_map_filter)
next
  assume a: "\<not> hasBlock_p000 (cleanCode code)
       \<and> (\<forall>l\<in>set (split (cu (CHR 0x0A)) (cleanCode code)). \<not> hasKeyword_p000 (trim l))"
  then have "\<forall>l\<in>set (split (cu (CHR 0x0A)) (cleanCode code)).
      (if trim l = [] then None
       else parseStatement_p000 (trim l) (extractVariables (cleanCode code))) = None"
    by (simp add: no_keyword_p000)
  then have "List.map_filter
       (\<lambda>l. if trim l = [] then None
            else parseStatement_p000 (trim l) (extractVariables (cleanCode code)))
       (split (cu (CHR 0x0A)) (cleanCode code)) = []"
    by (rule map_filter_empty)
  with a show "parseOpenSCADToThreeJS_p000 code = Group origin origin [placeholder]"
    by (simp add: parseOpenSCADToThreeJS_p000_def parseLines_p000_map_filter no_keyword_p000)
qed

theorem no_geometry_witness:
  "parseOpenSCADToThreeJS (js ''circle(5);\<newline>cube(bad syntax'') = Inl (Error noPrimitives)
   \<and> parseOpenSCADToThreeJS_p000 (js ''circle(5);'') = Group origin origin [placeholder]"
proof -
  let ?two = "js ''circle(5);\<newline>cube(bad syntax''"
  let ?one = "js ''circle(5);''"
  have c2: "cleanCode ?two = ?two"
    by (simp add: cleanCode_def blockCommentRe_def matchAt_def)
  have c1: "cleanCode ?one = ?one"
    by (simp add: cleanCode_def blockCommentRe_def matchAt_def)
  have 1: "\<forall>l\<in>set (split (cu (CHR 0x0A)) (cleanCode ?two)). unmatched (trim l)"
    unfolding c2 by (simp add: unmatched_def hasKeyword_def trim_def isSpace_def)
  have 2: "\<not> hasBlock_p000 (cleanCode ?one)
       \<and> (\<forall>l\<in>set (split (cu (CHR 0x0A)) (cleanCode ?one)). \<not> hasKeyword_p000 (trim l))"
    unfolding c1 by (simp add: hasBlock_p000_def hasKeyword_p000_def trim_def isSpace_def)
  from no_geometry [of ?two] 1
  have "parseOpenSCADToThreeJS ?two = Inl (Error noPrimitives)" by blast
  moreover from no_geometry [of ?one] 2
  have "parseOpenSCADToThreeJS_p000 ?one = Group origin origin [placeholder]" by blast
  ultimately show ?thesis by (simp only: simp_thms)
qed

text \<open>
  Buffers without geometry that do not fail. The variant with variables returns
  the 10 by 10 by 10 placeholder. In \<^verbatim>\<open>src/utils/openscadConverter.ts\<close> a
  \<^verbatim>\<open>rotate\<close> without a child and a \<^verbatim>\<open>difference\<close> without a cube add an empty
  group, which is a child of the scene, so that no error is thrown; and a
  cylinder or a sphere call that is never closed builds the unit cylinder or a
  sphere of radius \<^verbatim>\<open>NaN\<close>.
\<close>

theorem no_error_without_geometry:
  "parseOpenSCADToThreeJS_p000 (js ''circle(5);'')
   = Group origin origin
       [Mesh (BoxGeometry (Num 10) (Num 10) (Num 10)) (MeshPhongMaterial 0x667eea True 0.7)
             origin origin]
   \<and> parseOpenSCADToThreeJS (js ''rotate([90])'')
     = Inr (Group origin origin [Group origin (Num (MathPI / 2), Undefined, Undefined) []])
   \<and> parseOpenSCADToThreeJS (js ''difference() {\<newline>}'')
     = Inr (Group origin origin [Group origin origin []])
   \<and> parseOpenSCADToThreeJS (js ''cylinder(bad'')
     = Inr (Group origin origin
         [Mesh (CylinderGeometry (Num 1) (Num 1) (Num 1) 32) (MeshPhongMaterial 0x48bb78 True 0.9)
               origin (Num (MathPI / 2), Num 0, Num 0)])
   \<and> parseOpenSCADToThreeJS (js ''sphere(bad'')
     = Inr (Group origin origin
         [Mesh (SphereGeometry NaN 32 32) (MeshPhongMaterial 0x764ba2 True 0.9) origin origin])"
proof -
  have "parseOpenSCADToThreeJS_p000 (js ''circle(5);'')
   = Group origin origin
       [Mesh (BoxGeometry (Num 10) (Num 10) (Num 10)) (MeshPhongMaterial 0x667eea True 0.7)
             origin origin]"
    by (simp add: converter_defs converter_p000_defs)
  moreover have "parseOpenSCADToThreeJS (js ''rotate([90])'')
     = Inr (Group origin origin [Group origin (Num (MathPI / 2), Undefined, Undefined) []])"
    by (simp add: converter_defs MathPI_def)
  moreover have "parseOpenSCADToThreeJS (js ''difference() {\<newline>}'')
     = Inr (Group origin origin [Group origin origin []])"
    by (simp add: converter_defs)
  moreover have "parseOpenSCADToThreeJS (js ''cylinder(bad'')
     = Inr (Group origin origin
         [Mesh (CylinderGeometry (Num 1) (Num 1) (Num 1) 32) (MeshPhongMaterial 0x48bb78 True 0.9)
               origin (Num (MathPI / 2), Num 0, Num 0)])"
    by (simp add: converter_defs)
  moreover have "parseOpenSCADToThreeJS (js ''sphere(bad'')
     = Inr (Group origin origin
         [Mesh (SphereGeometry NaN 32 32) (MeshPhongMaterial 0x764ba2 True 0.9) origin origin])"
    by (simp add: converter_defs)
  ultimately show ?thesis by (simp only: simp_thms)
qed




text \<open>
  C2. A difference block whose first child is a sphere and whose second is a
  cube: \<^verbatim>\<open>parseDifference\<close> returns the recoloured cube, the second child, and
  the line loop adds the sphere and the cube once more beside the group.
\<close>

theorem difference_first_cube:
  "parseDifference (js ''difference() {\<newline>  sphere(r=5);\<newline>  cube([1,1,1]);\<newline>}'')
   = Some (Group origin origin
       [Mesh (BoxGeometry (Num 1) (Num 1) (Num 1)) (MeshPhongMaterial 0xed8936 True 0.9)
             (Num (1 / 2), Num (1 / 2), Num (1 / 2)) origin])
   \<and> parseOpenSCADToThreeJS (js ''difference() {\<newline>  sphere(r=5);\<newline>  cube([1,1,1]);\<newline>}'')
   = Inr (Group origin origin
       [Group origin origin
          [Mesh (BoxGeometry (Num 1) (Num 1) (Num 1)) (MeshPhongMaterial 0xed8936 True 0.9)
                (Num (1 / 2), Num (1 / 2), Num (1 / 2)) origin],
        Mesh (SphereGeometry (Num 5) 32 32) (MeshPhongMaterial 0x764ba2 True 0.9) origin origin,
        Mesh (BoxGeometry (Num 1) (Num 1) (Num 1)) (MeshPhongMaterial 0x667eea True 0.9)
             (Num (1 / 2), Num (1 / 2), Num (1 / 2)) origin])"
  by (simp add: converter_defs)

text \<open>
  C5. A cylinder with positional height and radii gets the defaults, height 1
  and radii 1; a sphere with a positional radius and a named one gets the
  positional one.
\<close>

theorem cylinder_positional_ignored:
  "parseCylinder (js ''cylinder(10, 3, 3)'')
   = Some (Mesh (CylinderGeometry (Num 1) (Num 1) (Num 1) 32) (MeshPhongMaterial 0x48bb78 True 0.9)
             origin (Num (MathPI / 2), Num 0, Num 0))
   \<and> parseSphere (js ''sphere(5, r=7)'')
   = Some (Mesh (SphereGeometry (Num 5) 32 32) (MeshPhongMaterial 0x764ba2 True 0.9) origin origin)"
  by (simp add: converter_defs)

text \<open>
  C8. A translate with its child on the same line: the line holds \<^verbatim>\<open>cube(\<close>,
  so it is parsed as a cube, and the scene is that of the cube alone, not moved.
\<close>

theorem translate_same_line:
  "parseOpenSCADToThreeJS (js ''translate([1,2,3]) cube([1,1,1]);'')
   = Inr (Group origin origin
       [Mesh (BoxGeometry (Num 1) (Num 1) (Num 1)) (MeshPhongMaterial 0x667eea True 0.9)
             (Num (1 / 2), Num (1 / 2), Num (1 / 2)) origin])
   \<and> parseOpenSCADToThreeJS (js ''cube([1,1,1]);'')
   = Inr (Group origin origin
       [Mesh (BoxGeometry (Num 1) (Num 1) (Num 1)) (MeshPhongMaterial 0x667eea True 0.9)
             (Num (1 / 2), Num (1 / 2), Num (1 / 2)) origin])"
  by (simp add: converter_defs)

end
